theory Spec2Isabelle
  imports Main "HOL-Library.AList"
begin

section \<open>Values and errors\<close>

text \<open>
  Text. Python 2 has two kinds of string. A byte string (\<^verbatim>\<open>str\<close>) is
  modelled by the HOL string of its bytes. A \<^verbatim>\<open>unicode\<close> string, which is what
  the framework makes of every request value and the JSON decoder of every
  string, is modelled by the HOL string of the UTF-8 bytes of its text: it is
  ASCII exactly when each of these bytes is below 128, and then it is equal to
  the byte string of the same text. Where the code turns a \<^verbatim>\<open>unicode\<close> string
  into a byte string with \<^verbatim>\<open>str(v)\<close>, as \<^verbatim>\<open>urlencode\<close> does with every value,
  the two kinds are told apart: outside ASCII the call raises
  \<^verbatim>\<open>UnicodeEncodeError\<close>.
\<close>

text \<open>
  The exceptions the code can raise. \<open>BadRequestKeyError\<close> is what the framework's
  \<^verbatim>\<open>request.args[key]\<close> raises on a missing key; \<open>ProviderError\<close> stands for
  whatever \<^verbatim>\<open>urlopen(req).read()\<close> or \<^verbatim>\<open>loads\<close> raise (no connection, an
  HTTP error status, a body that is not JSON); \<open>ParsingError\<close> for what the
  configuration parser raises on a malformed file; \<open>ImportError\<close> for a failure
  while the project's components are created; \<open>UnicodeEncodeError\<close> is raised by
  \<^verbatim>\<open>str(v)\<close> on a \<^verbatim>\<open>unicode\<close> string outside ASCII.
\<close>

datatype py_error =
    BadRequestKeyError string
  | KeyError string
  | TypeError
  | AttributeError
  | ProviderError
  | ParsingError
  | ImportError
  | ProjectImportError string
  | UnicodeEncodeError

text \<open>
  What \<^verbatim>\<open>json.loads\<close> returns. A number is carried as the text that Python's
  \<^verbatim>\<open>str()\<close> gives it; a \<^verbatim>\<open>dict\<close> as its items.
\<close>

datatype json =
    JNull
  | JBool bool
  | JNum string
  | JStr string
  | JArr "json list"
  | JObj "(string \<times> json) list"

text \<open>The hashable values among these: the ones a \<^verbatim>\<open>dict\<close> lookup accepts as a key.\<close>

datatype pykey = KNone | KBool bool | KNum string | KStr string

text \<open>Hashing a value, as \<^verbatim>\<open>id in cls.__all__\<close> does first: lists and dicts are unhashable.\<close>

fun hash_key :: "json \<Rightarrow> py_error + pykey" where
  "hash_key JNull = Inr KNone"
| "hash_key (JBool b) = Inr (KBool b)"
| "hash_key (JNum t) = Inr (KNum t)"
| "hash_key (JStr s) = Inr (KStr s)"
| "hash_key (JArr xs) = Inl TypeError"
| "hash_key (JObj kvs) = Inl TypeError"

text \<open>\<^verbatim>\<open>'%s' % v\<close> for a hashable value: the text that the format puts in.\<close>

fun py_str :: "pykey \<Rightarrow> string" where
  "py_str KNone = ''None''"
| "py_str (KBool b) = (if b then ''True'' else ''False'')"
| "py_str (KNum t) = t"
| "py_str (KStr s) = s"

text \<open>\<^verbatim>\<open>needle in s\<close> on two strings: \<open>needle\<close> occurs in \<open>s\<close> as a substring.\<close>

fun str_contains :: "string \<Rightarrow> string \<Rightarrow> bool" where
  "str_contains needle [] = (needle = [])"
| "str_contains needle (c # cs) =
     (take (length needle) (c # cs) = needle \<or> str_contains needle cs)"

text \<open>
  \<^verbatim>\<open>key in v\<close> for a string \<open>key\<close> and a decoded JSON value \<open>v\<close>: key membership
  in a dict, element membership in a list, substring in a string, and a
  \<^verbatim>\<open>TypeError\<close> on anything that is not a container.
\<close>

fun py_in :: "string \<Rightarrow> json \<Rightarrow> py_error + bool" where
  "py_in key (JObj kvs) = Inr (key \<in> set (map fst kvs))"
| "py_in key (JArr xs) = Inr (JStr key \<in> set xs)"
| "py_in key (JStr s) = Inr (str_contains key s)"
| "py_in key JNull = Inl TypeError"
| "py_in key (JBool b) = Inl TypeError"
| "py_in key (JNum t) = Inl TypeError"

text \<open>\<^verbatim>\<open>v[key]\<close> for a string \<open>key\<close>: only a dict can be indexed by a string.\<close>

fun py_getitem :: "json \<Rightarrow> string \<Rightarrow> py_error + json" where
  "py_getitem (JObj kvs) key =
     (case map_of kvs key of None \<Rightarrow> Inl (KeyError key) | Some v \<Rightarrow> Inr v)"
| "py_getitem v key = Inl TypeError"

section \<open>The request, the session and the provider\<close>

text \<open>
  \<^verbatim>\<open>request.args\<close> is a multi-dict: \<^verbatim>\<open>request.args[key]\<close> is the first value of
  the key.
\<close>

record request =
  args :: "(string \<times> string) list"
  url_root :: string

definition args_getitem :: "request \<Rightarrow> string \<Rightarrow> py_error + string" where
  "args_getitem req key =
     (case map_of (args req) key of None \<Rightarrow> Inl (BadRequestKeyError key) | Some v \<Rightarrow> Inr v)"

datatype user = User string

fun get_id :: "user \<Rightarrow> string" where
  "get_id (User email) = email"

text \<open>
  Modelled from the spec: the class \<^verbatim>\<open>Loggable\<close> (flasker/util.py), whose method
  \<^verbatim>\<open>info\<close> the handlers call on a user, is not under src/. By the spec the call
  emits an audit log entry with the given message; \<open>UserInfo\<close> is that entry, and
  records the user it was called on. The other two entries are the calls
  \<^verbatim>\<open>current_app.logger.debug(msg)\<close> and \<^verbatim>\<open>current_app.logger.warn(msg)\<close>.
\<close>

datatype log_entry =
    Debug string
  | Warn string
  | UserInfo user string

text \<open>An outbound request: the URL and the headers.\<close>

datatype http_call = Get string "(string \<times> string) list"

text \<open>
  The part of the world a handler changes: the session's user (\<open>None\<close> is the
  anonymous user), the application log, and the requests sent to the provider, in
  order.
\<close>

record state =
  current_user :: "user option"
  logger :: "log_entry list"
  calls :: "http_call list"

text \<open>
  What a handler reads: the client id (\<^verbatim>\<open>OAuth.CLIENT_ID\<close>, \<^verbatim>\<open>None\<close> until
  \<^verbatim>\<open>make\<close> sets it), the directory \<^verbatim>\<open>User.__all__\<close>, and the provider, which
  answers each request with a decoded JSON value or fails.
\<close>

record app =
  CLIENT_ID :: "string option"
  all_users :: "string \<rightharpoonup> user"
  provider :: "http_call \<Rightarrow> py_error + json"

datatype response =
    Render string "(string \<times> string) list"
  | Redirect string

definition log_call :: "log_entry \<Rightarrow> state \<Rightarrow> state" where
  "log_call e s = s\<lparr>logger := logger s @ [e]\<rparr>"

text \<open>\<^verbatim>\<open>loads(urlopen(req).read())\<close>: the request is sent, then answered.\<close>

definition urlopen_json :: "app \<Rightarrow> http_call \<Rightarrow> state \<Rightarrow> (py_error + json) \<times> state" where
  "urlopen_json a c s = (provider a c, s\<lparr>calls := calls s @ [c]\<rparr>)"

text \<open>\<^verbatim>\<open>login_user(user)\<close> and \<^verbatim>\<open>logout_user()\<close> of the login extension.\<close>

definition login_user :: "user \<Rightarrow> state \<Rightarrow> state" where
  "login_user u s = s\<lparr>current_user := Some u\<rparr>"

definition logout_user :: "state \<Rightarrow> state" where
  "logout_user s = s\<lparr>current_user := None\<rparr>"

section \<open>Google OAuth API helpers\<close>

definition ENDPOINT_get_token_or_code :: string where
  "ENDPOINT_get_token_or_code = ''https://accounts.google.com/o/oauth2/auth''"

definition ENDPOINT_validate_token :: string where
  "ENDPOINT_validate_token = ''https://www.googleapis.com/oauth2/v1/tokeninfo''"

definition ENDPOINT_get_user_info :: string where
  "ENDPOINT_get_user_info = ''https://www.googleapis.com/oauth2/v2/userinfo''"

definition SCOPE_email :: string where
  "SCOPE_email = ''https://www.googleapis.com/auth/userinfo.email''"

definition RESPONSE_TYPE :: string where
  "RESPONSE_TYPE = ''token''"

subsection \<open>The library's \<^verbatim>\<open>urlencode\<close>\<close>

text \<open>
  \<^verbatim>\<open>quote_plus\<close> keeps letters, digits and \<^verbatim>\<open>_.-\<close>, turns a space into
  \<^verbatim>\<open>+\<close> and every other byte into \<^verbatim>\<open>%XX\<close>, two upper-case hexadecimal digits.
\<close>

definition always_safe :: string where
  "always_safe =
     ''ABCDEFGHIJKLMNOPQRSTUVWXYZabcdefghijklmnopqrstuvwxyz0123456789_.-''"

definition hex_digit :: "nat \<Rightarrow> char" where
  "hex_digit n = ''0123456789ABCDEF'' ! (n mod 16)"

definition quote_char :: "char \<Rightarrow> string" where
  "quote_char c =
     (if c \<in> set always_safe then [c]
      else if c = CHR '' '' then ''+''
      else [CHR ''%'', hex_digit (of_char c div 16), hex_digit (of_char c)])"

definition quote_plus :: "string \<Rightarrow> string" where
  "quote_plus s = concat (map quote_char s)"

text \<open>\<^verbatim>\<open>sep.join(xs)\<close>.\<close>

fun join :: "string \<Rightarrow> string list \<Rightarrow> string" where
  "join sep [] = []"
| "join sep [x] = x"
| "join sep (x # y # ys) = x @ sep @ join sep (y # ys)"

text \<open>
  A value handed to \<^verbatim>\<open>urlencode\<close>: \<^verbatim>\<open>None\<close>, a byte string or a
  \<^verbatim>\<open>unicode\<close> string. \<open>param_str\<close> is \<^verbatim>\<open>str(v)\<close>.
\<close>

datatype param = PNone | PStr string | PUni string

definition is_ascii :: "string \<Rightarrow> bool" where
  "is_ascii s = list_all (\<lambda>c. (of_char c :: nat) < 128) s"

fun param_str :: "param \<Rightarrow> py_error + string" where
  "param_str PNone = Inr ''None''"
| "param_str (PStr s) = Inr s"
| "param_str (PUni s) = (if is_ascii s then Inr s else Inl UnicodeEncodeError)"

text \<open>
  \<^verbatim>\<open>urlencode(query)\<close>: for each item in turn,
  \<^verbatim>\<open>quote_plus(str(k)) + '=' + quote_plus(str(v))\<close>, and the pieces joined by
  \<^verbatim>\<open>&\<close>. The keys are byte strings. The first value that \<^verbatim>\<open>str\<close> refuses
  ends the call.
\<close>

definition urlencode_item :: "string \<times> string \<Rightarrow> string" where
  "urlencode_item kv = quote_plus (fst kv) @ ''='' @ quote_plus (snd kv)"

fun urlencode_items :: "(string \<times> param) list \<Rightarrow> py_error + string list" where
  "urlencode_items [] = Inr []"
| "urlencode_items ((k, v) # rest) =
     (case param_str v of
        Inl e \<Rightarrow> Inl e
      | Inr t \<Rightarrow>
          (case urlencode_items rest of
             Inl e \<Rightarrow> Inl e
           | Inr l \<Rightarrow> Inr (urlencode_item (k, t) # l)))"

definition urlencode :: "(string \<times> param) list \<Rightarrow> py_error + string" where
  "urlencode query =
     (case urlencode_items query of Inl e \<Rightarrow> Inl e | Inr l \<Rightarrow> Inr (join ''&'' l))"

subsection \<open>\<^verbatim>\<open>get_params\<close> and \<^verbatim>\<open>get_google_login_url\<close>\<close>

text \<open>
  The parameters are a \<^verbatim>\<open>dict\<close>, which \<^verbatim>\<open>urlencode\<close> reads in the dict's
  iteration order; the language does not fix that order. The model lists the items
  in the order of the source, and no statement below depends on it. The value of
  \<^verbatim>\<open>next\<close> and the URL root come from the request and are \<^verbatim>\<open>unicode\<close>; the
  scope and the response type are byte strings of the module; the client id is
  \<^verbatim>\<open>None\<close> until \<^verbatim>\<open>make\<close> sets it, to a byte string of the configuration.
\<close>

definition get_params :: "app \<Rightarrow> request \<Rightarrow> (string \<times> param) list" where
  "get_params a req =
     (let state = (case map_of (args req) ''next'' of Some v \<Rightarrow> PUni v | None \<Rightarrow> PStr ''/'')
      in [(''scope'', PStr SCOPE_email),
          (''redirect_uri'', PUni (url_root req @ ''oauth2callback'')),
          (''response_type'', PStr RESPONSE_TYPE),
          (''state'', state),
          (''client_id'', (case CLIENT_ID a of None \<Rightarrow> PNone | Some c \<Rightarrow> PStr c))])"

definition get_google_login_url :: "app \<Rightarrow> request \<Rightarrow> py_error + string" where
  "get_google_login_url a req =
     (case urlencode (get_params a req) of
        Inl e \<Rightarrow> Inl e
      | Inr query \<Rightarrow> Inr (ENDPOINT_get_token_or_code @ ''?'' @ query))"

subsection \<open>\<^verbatim>\<open>validate_token\<close> and \<^verbatim>\<open>get_user_info_from_token\<close>\<close>

definition validate_token :: "app \<Rightarrow> string \<Rightarrow> state \<Rightarrow> (py_error + bool) \<times> state" where
  "validate_token a token s =
     (let url = ENDPOINT_validate_token @ ''?access_token='' @ token;
          (r, s') = urlopen_json a (Get url []) s
      in case r of
           Inl e \<Rightarrow> (Inl e, s')
         | Inr token_info \<Rightarrow>
             (case py_in ''error'' token_info of
                Inl e \<Rightarrow> (Inl e, s')
              | Inr b \<Rightarrow> (if b then (Inr False, s') else (Inr True, s'))))"

definition get_user_info_from_token ::
  "app \<Rightarrow> string \<Rightarrow> state \<Rightarrow> (py_error + json) \<times> state" where
  "get_user_info_from_token a token s =
     (let url = ENDPOINT_get_user_info;
          headers = [(''Authorization'', ''Bearer '' @ token)]
      in urlopen_json a (Get url headers) s)"

section \<open>The user directory\<close>

text \<open>
  \<^verbatim>\<open>User.get_from_id(id)\<close> on a hashable \<open>id\<close>. The directory's keys are strings,
  and a value that is not a string equals none of them.
\<close>

fun get_from_id :: "(string \<rightharpoonup> user) \<Rightarrow> pykey \<Rightarrow> user option" where
  "get_from_id all (KStr s) = all s"
| "get_from_id all k = None"

definition load_user :: "app \<Rightarrow> string \<Rightarrow> user option" where
  "load_user a user_email = get_from_id (all_users a) (KStr user_email)"

text \<open>\<^verbatim>\<open>dict(pairs)\<close>: a later pair replaces an earlier one with the same key.\<close>

definition dict_of :: "('k \<times> 'v) list \<Rightarrow> ('k \<rightharpoonup> 'v)" where
  "dict_of pairs = map_of (rev pairs)"

definition populate :: "string list \<Rightarrow> (string \<rightharpoonup> user)" where
  "populate authorized_emails = dict_of (map (\<lambda>email. (email, User email)) authorized_emails)"

section \<open>Handlers\<close>

text \<open>
  The handlers that answer with the page \<^verbatim>\<open>sign_in_out.html\<close> first build its
  three values, the login URL among them, and then render it:
  \<^verbatim>\<open>values = {'header': ..., 'color': ..., 'sign_in_url': get_google_login_url()}\<close>
  and \<^verbatim>\<open>render_template('sign_in_out.html', **values)\<close>. An exception in
  \<^verbatim>\<open>get_google_login_url\<close> ends the handler before anything is rendered.
\<close>

definition sign_in_out :: "string \<Rightarrow> string \<Rightarrow> app \<Rightarrow> request \<Rightarrow> py_error + response" where
  "sign_in_out header color a req =
     (case get_google_login_url a req of
        Inl e \<Rightarrow> Inl e
      | Inr sign_in_url \<Rightarrow>
          Inr (Render ''sign_in_out.html''
                 [(''header'', header), (''color'', color), (''sign_in_url'', sign_in_url)]))"

definition sign_in :: "app \<Rightarrow> request \<Rightarrow> py_error + response" where
  "sign_in a req = sign_in_out ''Welcome!'' ''primary'' a req"

definition catch_token :: "app \<Rightarrow> request \<Rightarrow> state \<Rightarrow> (py_error + response) \<times> state" where
  "catch_token a req s0 =
     (case args_getitem req ''access_token'' of
        Inl e \<Rightarrow> (Inl e, s0)
      | Inr token \<Rightarrow>
          (let s1 = log_call (Debug ''Successfully caught access token.'') s0;
               (valid, s2) = validate_token a token s1
           in case valid of
                Inl e \<Rightarrow> (Inl e, s2)
              | Inr ok \<Rightarrow>
                  if \<not> ok then
                    (let s3 = log_call (Warn ''Access token is invalid.'') s2
                     in (sign_in_out ''Invalid token'' ''danger'' a req, s3))
                  else
                    (let s3 = log_call (Debug ''Access token is valid.'') s2;
                         (infos, s4) = get_user_info_from_token a token s3
                     in case infos of
                          Inl e \<Rightarrow> (Inl e, s4)
                        | Inr user_infos \<Rightarrow>
                            (let s5 = log_call (Debug ''Gathered user infos successfully.'') s4
                             in case py_getitem user_infos ''email'' of
                                  Inl e \<Rightarrow> (Inl e, s5)
                                | Inr email \<Rightarrow>
                                    (case hash_key email of
                                       Inl e \<Rightarrow> (Inl e, s5)
                                     | Inr k \<Rightarrow>
                                         (case get_from_id (all_users a) k of
                                            Some user \<Rightarrow>
                                              (let s6 = login_user user s5;
                                                   s7 = log_call (UserInfo user ''Signed in.'') s6
                                               in case args_getitem req ''state'' of
                                                    Inl e \<Rightarrow> (Inl e, s7)
                                                  | Inr location \<Rightarrow> (Inr (Redirect location), s7))
                                          | None \<Rightarrow>
                                              (let s6 = log_call
                                                     (Warn (py_str k @ '' tried to sign in.'')) s5
                                               in (sign_in_out ''Unauthorized'' ''warning'' a req,
                                                   s6))))))))"

text \<open>
  \<^verbatim>\<open>current_user.is_authenticated()\<close> holds of a signed-in user and not of the
  anonymous one.
\<close>

definition sign_out :: "app \<Rightarrow> request \<Rightarrow> state \<Rightarrow> (py_error + response) \<times> state" where
  "sign_out a req s =
     (let s' = (case current_user s of
                  Some user \<Rightarrow> logout_user (log_call (UserInfo user ''Signed out.'') s)
                | None \<Rightarrow> s)
      in (sign_in_out ''Goodbye'' ''success'' a req, s'))"

text \<open>\<^verbatim>\<open>make(credentials)\<close> sets the client id.\<close>

definition make_oauth :: "string \<Rightarrow> app \<Rightarrow> app" where
  "make_oauth credentials a = a\<lparr>CLIENT_ID := Some credentials\<rparr>"

section \<open>Strings of the configuration\<close>

text \<open>
  \<^verbatim>\<open>s.split(sep)\<close> for a one-character separator; \<open>cur\<close> is the piece being
  read, reversed.
\<close>

fun split_acc :: "char \<Rightarrow> string \<Rightarrow> string \<Rightarrow> string list" where
  "split_acc sep cur [] = [rev cur]"
| "split_acc sep cur (c # cs) =
     (if c = sep then rev cur # split_acc sep [] cs else split_acc sep (c # cur) cs)"

definition str_split :: "string \<Rightarrow> char \<Rightarrow> string list" where
  "str_split s sep = split_acc sep [] s"

text \<open>
  \<^verbatim>\<open>s.strip()\<close>: white space is the space, tab, line feed, return, vertical tab
  and form feed.
\<close>

definition is_space :: "char \<Rightarrow> bool" where
  "is_space c = ((of_char c :: nat) \<in> set [32, 9, 10, 13, 11, 12])"

definition strip :: "string \<Rightarrow> string" where
  "strip s = rev (dropWhile is_space (rev (dropWhile is_space s)))"

text \<open>\<^verbatim>\<open>s.lower()\<close> on a byte string.\<close>

definition lower_char :: "char \<Rightarrow> char" where
  "lower_char c =
     (let n = (of_char c :: nat) in if 65 \<le> n \<and> n \<le> 90 then char_of (n + 32) else c)"

definition lower :: "string \<Rightarrow> string" where
  "lower s = map lower_char s"

text \<open>
  \<^verbatim>\<open>sub(r'\W+', '_', s)\<close>: every maximal run of characters other than letters,
  digits and \<^verbatim>\<open>_\<close> becomes one \<^verbatim>\<open>_\<close>.
\<close>

definition is_word :: "char \<Rightarrow> bool" where
  "is_word c =
     (let n = (of_char c :: nat)
      in (48 \<le> n \<and> n \<le> 57) \<or> (65 \<le> n \<and> n \<le> 90) \<or> (97 \<le> n \<and> n \<le> 122) \<or> n = 95)"

function sub_nonword :: "string \<Rightarrow> string" where
  "sub_nonword [] = []"
| "sub_nonword (c # cs) =
     (if is_word c then c # sub_nonword cs
      else CHR ''_'' # sub_nonword (dropWhile (\<lambda>d. \<not> is_word d) cs))"
  by pat_completeness auto
termination
  by (relation "measure length") (auto simp: length_dropWhile_le less_Suc_eq_le)

text \<open>\<^verbatim>\<open>s.replace(old, '-')\<close> for a one-character \<open>old\<close>.\<close>

definition replace_char :: "char \<Rightarrow> string \<Rightarrow> string" where
  "replace_char old s = map (\<lambda>c. if c = old then CHR ''-'' else c) s"

section \<open>The project\<close>

text \<open>A configuration value: what \<^verbatim>\<open>convert\<close> makes of the text of an option.\<close>

datatype conf_value = VBool bool | VInt int | VStr string

text \<open>Python's truth value of a configuration value.\<close>

fun truthy :: "conf_value \<Rightarrow> bool" where
  "truthy (VBool b) = b"
| "truthy (VInt i) = (i \<noteq> 0)"
| "truthy (VStr s) = (s \<noteq> [])"

definition is_digit :: "char \<Rightarrow> bool" where
  "is_digit c = (let n = (of_char c :: nat) in 48 \<le> n \<and> n \<le> 57)"

definition int_of_digits :: "string \<Rightarrow> int" where
  "int_of_digits s = foldl (\<lambda>n c. 10 * n + (int (of_char c) - 48)) 0 s"

text \<open>
  Modelled from the spec: the function \<^verbatim>\<open>convert\<close> (flasker/util.py) is not under
  src/. By the spec, value strings are coerced by pattern: a case-insensitive
  \<^verbatim>\<open>true\<close> or \<^verbatim>\<open>false\<close> is a boolean, a digit string is an integer, and
  anything else stays a string.
\<close>

definition convert :: "string \<Rightarrow> conf_value" where
  "convert v =
     (if lower v = ''true'' then VBool True
      else if lower v = ''false'' then VBool False
      else if v \<noteq> [] \<and> list_all is_digit v then VInt (int_of_digits v)
      else VStr v)"

type_synonym conf_section = "string \<rightharpoonup> conf_value"
type_synonym config = "string \<rightharpoonup> conf_section"

text \<open>
  A dict that is iterated: its items, each key once. For \<^verbatim>\<open>dict(pairs)\<close> a later
  pair wins.
\<close>

definition dict_items :: "('k \<times> 'v) list \<Rightarrow> ('k \<times> 'v) list" where
  "dict_items pairs = AList.clearjunk (rev pairs)"

text \<open>
  What the configuration parser makes of the file at a path: it cannot be opened
  (\<^verbatim>\<open>IOError\<close>), it is malformed, or it has sections, each with its options as
  \<^verbatim>\<open>parser.items\<close> lists them.
\<close>

datatype config_file =
    Unreadable
  | Malformed
  | Sections "(string \<times> (string \<times> string) list) list"

definition parse_config ::
  "(string \<Rightarrow> config_file) \<Rightarrow> string \<Rightarrow> py_error + (string \<times> conf_section) list" where
  "parse_config fs config_path =
     (case fs config_path of
        Unreadable \<Rightarrow>
          Inl (ProjectImportError
                 (''Unable to parse configuration file at '' @ config_path @ ''.''))
      | Malformed \<Rightarrow> Inl ParsingError
      | Sections secs \<Rightarrow>
          (let conf = dict_items
                 (map (\<lambda>(s, items). (s, dict_of (map (\<lambda>(k, v). (k, convert v)) items))) secs)
           in case map_of conf ''PROJECT'' of
                None \<Rightarrow> Inl (KeyError ''PROJECT'')
              | Some project \<Rightarrow>
                  (case project ''NAME'' of
                     None \<Rightarrow> Inl (KeyError ''NAME'')
                   | Some name \<Rightarrow>
                       if \<not> truthy name then Inl (ProjectImportError ''Missing project name.'')
                       else Inr conf)))"

text \<open>The class attribute \<^verbatim>\<open>Project.config\<close>: the compiled-in defaults.\<close>

definition Project_config :: config where
  "Project_config = map_of
     [(''PROJECT'', map_of
         [(''NAME'', VStr []),
          (''DOMAIN'', VStr []),
          (''SUBDOMAIN'', VStr []),
          (''MODULES'', VStr []),
          (''FLASK_ROOT_FOLDER'', VStr ''app''),
          (''FLASK_STATIC_FOLDER'', VStr ''static''),
          (''FLASK_TEMPLATE_FOLDER'', VStr ''templates''),
          (''COMMIT_ON_TEARDOWN'', VBool True)]),
      (''ENGINE'', map_of [(''URL'', VStr ''sqlite://'')]),
      (''FLASK'', map_of [(''SECRET_KEY'', VStr ''a_default_unsafe_key'')]),
      (''CELERY'', map_of
         [(''BROKER_URL'', VStr ''redis://''),
          (''CELERY_RESULT_BACKEND'', VStr ''redis://''),
          (''CELERY_SEND_EVENTS'', VBool True)])]"

text \<open>
  The loop of \<^verbatim>\<open>__init__\<close> over the sections of the parsed file:
  \<^verbatim>\<open>self.config[key].update(config[key])\<close> for a section the configuration has,
  \<^verbatim>\<open>self.config[key] = config[key]\<close> for one it has not.
\<close>

fun merge_config :: "(string \<times> conf_section) list \<Rightarrow> config \<Rightarrow> config" where
  "merge_config [] cfg = cfg"
| "merge_config ((key, sec) # rest) cfg =
     merge_config rest
       (case cfg key of
          Some known \<Rightarrow> cfg(key \<mapsto> known ++ sec)
        | None \<Rightarrow> cfg(key \<mapsto> sec))"

text \<open>\<^verbatim>\<open>cfg[sec][key]\<close>.\<close>

definition config_get :: "config \<Rightarrow> string \<Rightarrow> string \<Rightarrow> py_error + conf_value" where
  "config_get cfg sec key =
     (case cfg sec of
        None \<Rightarrow> Inl (KeyError sec)
      | Some d \<Rightarrow> (case d key of None \<Rightarrow> Inl (KeyError key) | Some v \<Rightarrow> Inr v))"

text \<open>
  The functions of \<^verbatim>\<open>os.path\<close> that \<^verbatim>\<open>__init__\<close> calls, which depend on the
  platform and the working directory.
\<close>

record os_path =
  abspath :: "string \<Rightarrow> string"
  dirname :: "string \<Rightarrow> string"
  splitext :: "string \<Rightarrow> string \<times> string"
  sep :: char

text \<open>
  The state that all instances of \<^verbatim>\<open>Project\<close> share: the class attribute
  \<open>config\<close>, which \<^verbatim>\<open>__init__\<close> updates in place, and the attributes of the one
  dict that every instance takes as its \<^verbatim>\<open>__dict__\<close>. \<open>registered\<close> is the
  attribute \<^verbatim>\<open>__registered\<close>, \<open>path\<close> is \<^verbatim>\<open>sys.path\<close>, \<open>components\<close> stands for
  \<^verbatim>\<open>flask\<close>, \<^verbatim>\<open>celery\<close>, \<^verbatim>\<open>session\<close>, the engine and the hooks (\<open>None\<close> until
  \<^verbatim>\<open>_make\<close> fills them). Instances are numbered as they are created;
  \<open>instances\<close> counts them, and \<open>current_project\<close> is the thread-local
  \<^verbatim>\<open>_current_project\<close>: the instance each thread has stored, if any.
\<close>

record 'c project =
  registered :: bool
  config :: config
  root_dir :: "string option"
  domain :: "conf_value option"
  subdomain :: "conf_value option"
  path :: "string list"
  components :: "'c option"
  instances :: nat
  current_project :: "nat \<rightharpoonup> nat"

text \<open>The process at start: nothing registered, the defaults in place.\<close>

definition initial_project :: "string list \<Rightarrow> 'c project" where
  "initial_project sys_path =
     \<lparr>registered = False, config = Project_config, root_dir = None, domain = None,
      subdomain = None, path = sys_path, components = None, instances = 0,
      current_project = Map.empty\<rparr>"

text \<open>\<^verbatim>\<open>a or b\<close> where \<open>b\<close> may raise.\<close>

definition or_else :: "conf_value \<Rightarrow> (py_error + conf_value) \<Rightarrow> py_error + conf_value" where
  "or_else a b = (if truthy a then Inr a else b)"

text \<open>\<^verbatim>\<open>name.lower()\<close> exists on a string only.\<close>

definition domain_of_name :: "conf_value \<Rightarrow> py_error + conf_value" where
  "domain_of_name name =
     (case name of VStr s \<Rightarrow> Inr (VStr (sub_nonword (lower s))) | _ \<Rightarrow> Inl AttributeError)"

text \<open>
  \<^verbatim>\<open>Project.__init__(config_path, make)\<close>, run by thread \<open>tid\<close>; \<open>do_make\<close>
  is the argument \<^verbatim>\<open>make\<close>. The first two statements make the new instance,
  \<open>self\<close>, share the one attribute dict and store it as the thread's current
  project; the result is \<open>self\<close>, or the exception raised. The creation of
  the components, \<^verbatim>\<open>_make\<close>, imports modules outside this repository's source and
  runs their hooks; it is the parameter \<open>mk\<close>, which reads the configuration,
  leaves the components in some state and may raise.
\<close>

definition Project_init ::
  "(string \<Rightarrow> config_file) \<Rightarrow> os_path \<Rightarrow> (config \<Rightarrow> py_error option \<times> 'c) \<Rightarrow> nat \<Rightarrow>
   string option \<Rightarrow> bool \<Rightarrow> 'c project \<Rightarrow> (py_error + nat) \<times> 'c project" where
  "Project_init fs os mk tid config_path do_make st0 =
     (let self = instances st0;
          st1 = st0\<lparr>instances := Suc self, current_project := (current_project st0)(tid \<mapsto> self)\<rparr>
      in if registered st1 then (Inr self, st1)
         else
           (case config_path of
              None \<Rightarrow>
                (Inl (ProjectImportError
                   (''Project instantiation outside the Flasker command line tool '' @
                    ''requires a configuration file path.'')), st1)
            | Some p \<Rightarrow>
                (case parse_config fs p of
                   Inl e \<Rightarrow> (Inl e, st1)
                 | Inr conf \<Rightarrow>
                     (let st2 = st1\<lparr>config := merge_config conf (config st1)\<rparr>;
                          st3 = st2\<lparr>root_dir := Some (dirname os (abspath os p))\<rparr>
                      in case config_get (config st3) ''PROJECT'' ''DOMAIN'' of
                           Inl e \<Rightarrow> (Inl e, st3)
                         | Inr d \<Rightarrow>
                        (case or_else d
                                (case config_get (config st3) ''PROJECT'' ''NAME'' of
                                   Inl e \<Rightarrow> Inl e
                                 | Inr name \<Rightarrow> domain_of_name name) of
                           Inl e \<Rightarrow> (Inl e, st3)
                         | Inr derived \<Rightarrow>
                        (let st4 = st3\<lparr>domain := Some derived\<rparr>
                         in case config_get (config st4) ''PROJECT'' ''SUBDOMAIN'' of
                              Inl e \<Rightarrow> (Inl e, st4)
                            | Inr sd \<Rightarrow>
                        (case or_else sd
                                (Inr (VStr (replace_char (sep os) (fst (splitext os p))))) of
                           Inl e \<Rightarrow> (Inl e, st4)
                         | Inr derived_sub \<Rightarrow>
                        (let st5 = st4\<lparr>subdomain := Some derived_sub\<rparr>;
                             st6 = st5\<lparr>path := path st5 @ [dirname os (abspath os p)]\<rparr>;
                             st7 = st6\<lparr>components := None\<rparr>;
                             st8 = st7\<lparr>registered := True\<rparr>
                         in if do_make then
                              (case mk (config st8) of
                                 (None, c) \<Rightarrow> (Inr self, st8\<lparr>components := Some c\<rparr>)
                               | (Some e, c) \<Rightarrow> (Inl e, st8\<lparr>components := Some c\<rparr>))
                            else (Inr self, st8)))))))))"

text \<open>\<^verbatim>\<open>_get_current_project()\<close>: the thread's current project, or \<^verbatim>\<open>Project()\<close>.\<close>

definition get_current_project ::
  "(string \<Rightarrow> config_file) \<Rightarrow> os_path \<Rightarrow> (config \<Rightarrow> py_error option \<times> 'c) \<Rightarrow> nat \<Rightarrow>
   'c project \<Rightarrow> (py_error + nat) \<times> 'c project" where
  "get_current_project fs os mk tid st =
     (case current_project st tid of
        Some inst \<Rightarrow> (Inr inst, st)
      | None \<Rightarrow> Project_init fs os mk tid None True st)"

text \<open>
  The module-level call that fills the directory:
  \<^verbatim>\<open>User.populate(email.strip() for email in value.split(',') if email.strip())\<close>
  on the value of \<^verbatim>\<open>PROJECT.AUTHORIZED_EMAILS\<close>, which has a \<^verbatim>\<open>split\<close> only when
  it is a string.
\<close>

definition authorized_emails :: "string \<Rightarrow> string list" where
  "authorized_emails v =
     map strip (filter (\<lambda>email. strip email \<noteq> []) (str_split v CHR '',''))"

definition populate_from_config :: "config \<Rightarrow> py_error + (string \<rightharpoonup> user)" where
  "populate_from_config cfg =
     (case config_get cfg ''PROJECT'' ''AUTHORIZED_EMAILS'' of
        Inl e \<Rightarrow> Inl e
      | Inr (VStr v) \<Rightarrow> Inr (populate (authorized_emails v))
      | Inr _ \<Rightarrow> Inl AttributeError)"

section \<open>Reading a query string back\<close>

text \<open>
  What it means for a value to be URL-encoded is stated by the reader's side: a
  query string is cut at every \<^verbatim>\<open>&\<close>, each piece at its first \<^verbatim>\<open>=\<close>, and in
  both halves \<^verbatim>\<open>+\<close> is read as a space and \<^verbatim>\<open>%XX\<close> as the byte with that
  hexadecimal code. These are the library's \<^verbatim>\<open>unquote_plus\<close> and the reading
  of a query by its recipient; the handlers do not call them.
\<close>

definition hex_value :: "char \<Rightarrow> nat option" where
  "hex_value c =
     (let n = (of_char c :: nat)
      in if 48 \<le> n \<and> n \<le> 57 then Some (n - 48)
         else if 65 \<le> n \<and> n \<le> 70 then Some (n - 55)
         else if 97 \<le> n \<and> n \<le> 102 then Some (n - 87)
         else None)"

fun unquote_plus :: "string \<Rightarrow> string" where
  "unquote_plus [] = []"
| "unquote_plus (c # cs) =
     (if c = CHR ''+'' then CHR '' '' # unquote_plus cs
      else if c = CHR ''%'' then
        (case cs of
           h # l # rest \<Rightarrow>
             (case (hex_value h, hex_value l) of
                (Some a, Some b) \<Rightarrow> char_of (16 * a + b) # unquote_plus rest
              | _ \<Rightarrow> c # unquote_plus cs)
         | _ \<Rightarrow> c # unquote_plus cs)
      else c # unquote_plus cs)"

definition decode_item :: "string \<Rightarrow> string \<times> string" where
  "decode_item piece =
     (unquote_plus (takeWhile (\<lambda>c. c \<noteq> CHR ''='') piece),
      unquote_plus (drop 1 (dropWhile (\<lambda>c. c \<noteq> CHR ''='') piece)))"

definition decode_query :: "string \<Rightarrow> (string \<times> string) list" where
  "decode_query query = map decode_item (str_split query CHR ''&'')"

text \<open>
  What every instance reads as its attributes, with \<^verbatim>\<open>sys.path\<close>: all of the
  state but the count of instances and the threads' current projects.
\<close>

definition shared_state ::
  "'c project \<Rightarrow>
   bool \<times> config \<times> string option \<times> conf_value option \<times> conf_value option \<times>
   string list \<times> 'c option" where
  "shared_state st =
     (registered st, config st, root_dir st, domain st, subdomain st, path st, components st)"

text \<open>
  A run of constructions, each by a thread, with or without a path, with or
  without \<^verbatim>\<open>make\<close>; an exception ends the construction that raised it and not
  the run.
\<close>

fun constructions ::
  "(string \<Rightarrow> config_file) \<Rightarrow> os_path \<Rightarrow> (config \<Rightarrow> py_error option \<times> 'c) \<Rightarrow>
   (nat \<times> string option \<times> bool) list \<Rightarrow> 'c project \<Rightarrow> 'c project" where
  "constructions fs os mk [] st = st"
| "constructions fs os mk ((tid, config_path, do_make) # rest) st =
     constructions fs os mk rest (snd (Project_init fs os mk tid config_path do_make st))"

section \<open>A sample deployment\<close>

text \<open>
  A provider that knows three tokens: \<^verbatim>\<open>good\<close>, held by \<^verbatim>\<open>a@x.com\<close>;
  \<^verbatim>\<open>guest\<close>, held by \<^verbatim>\<open>z@x.com\<close>; and \<^verbatim>\<open>bad\<close>, which it reports as
  invalid. The application authorizes \<^verbatim>\<open>a@x.com\<close> and \<^verbatim>\<open>b@x.com\<close>.
\<close>

definition demo_provider :: "http_call \<Rightarrow> py_error + json" where
  "demo_provider c =
     (case c of Get url headers \<Rightarrow>
        if url = ENDPOINT_validate_token @ ''?access_token=good'' then
          Inr (JObj [(''audience'', JStr ''cid''), (''expires_in'', JNum ''3599'')])
        else if url = ENDPOINT_validate_token @ ''?access_token=bad'' then
          Inr (JObj [(''error'', JStr ''invalid_token'')])
        else if url = ENDPOINT_validate_token @ ''?access_token=guest'' then
          Inr (JObj [(''audience'', JStr ''cid'')])
        else if url = ENDPOINT_get_user_info
                \<and> headers = [(''Authorization'', ''Bearer good'')] then
          Inr (JObj [(''email'', JStr ''a@x.com''), (''verified_email'', JBool True)])
        else if url = ENDPOINT_get_user_info
                \<and> headers = [(''Authorization'', ''Bearer guest'')] then
          Inr (JObj [(''email'', JStr ''z@x.com'')])
        else Inl ProviderError)"

definition demo_app :: app where
  "demo_app =
     \<lparr>CLIENT_ID = Some ''cid'', all_users = populate [''a@x.com'', ''b@x.com''],
      provider = demo_provider\<rparr>"

definition demo_request :: "(string \<times> string) list \<Rightarrow> request" where
  "demo_request params = \<lparr>args = params, url_root = ''http://localhost/''\<rparr>"

definition anonymous :: state where
  "anonymous = \<lparr>current_user = None, logger = [], calls = []\<rparr>"

text \<open>
  Four configuration files: \<^verbatim>\<open>demo.cfg\<close> is the spec's scenario,
  \<^verbatim>\<open>mail.cfg\<close> has a section that the defaults do not know,
  \<^verbatim>\<open>noname.cfg\<close> has a \<^verbatim>\<open>PROJECT\<close> section without \<^verbatim>\<open>NAME\<close>, and
  \<^verbatim>\<open>empty.cfg\<close> has an empty \<^verbatim>\<open>NAME\<close>. No other path can be opened.
\<close>

definition demo_fs :: "string \<Rightarrow> config_file" where
  "demo_fs p =
     (if p = ''demo.cfg'' then
        Sections [(''PROJECT'',
                   [(''NAME'', ''Demo''), (''AUTHORIZED_EMAILS'', ''a@x.com,b@x.com'')])]
      else if p = ''mail.cfg'' then
        Sections [(''PROJECT'', [(''NAME'', ''Mailer'')]),
                  (''MAIL'', [(''HOST'', ''localhost''), (''PORT'', ''25'')])]
      else if p = ''noname.cfg'' then
        Sections [(''PROJECT'', [(''DOMAIN'', ''example'')])]
      else if p = ''empty.cfg'' then
        Sections [(''PROJECT'', [(''NAME'', [])])]
      else Unreadable)"

definition demo_os :: os_path where
  "demo_os =
     \<lparr>abspath = (\<lambda>p. ''/srv/'' @ p),
      dirname = (\<lambda>p. ''/srv''),
      splitext = (\<lambda>p. (takeWhile (\<lambda>c. c \<noteq> CHR ''.'') p, dropWhile (\<lambda>c. c \<noteq> CHR ''.'') p)),
      sep = CHR ''/''\<rparr>"

definition demo_mk :: "config \<Rightarrow> py_error option \<times> string" where
  "demo_mk cfg = (None, ''components'')"

text \<open>The process after the first construction, from \<^verbatim>\<open>demo.cfg\<close>, by thread 0.\<close>

definition demo_project :: "string project" where
  "demo_project =
     snd (Project_init demo_fs demo_os demo_mk 0 (Some ''demo.cfg'') True (initial_project []))"

section \<open>Properties of the authorization URL\<close>

subsection \<open>Quoting and reading back\<close>

lemma upt_16: "[0..<16] = [0, 1, 2, 3, 4, 5, 6, 7, 8, 9, 10, 11, 12, 13, 14, 15]"
  by code_simp

lemma mod_16_cases: "n mod 16 \<in> set [0, 1, 2, 3, 4, 5, 6, 7, 8, 9, 10, 11, 12, 13, 14, 15::nat]"
proof -
  have "n mod 16 \<in> set [0..<16]" by simp
  then show ?thesis by (simp only: upt_16)
qed

lemma hex_digit_value: "hex_value (hex_digit n) = Some (n mod 16)"
  using mod_16_cases [of n] unfolding hex_digit_def
  by (auto simp: hex_value_def)

lemma hex_digit_safe: "hex_digit n \<in> set always_safe"
  using mod_16_cases [of n] unfolding hex_digit_def
  by (auto simp: always_safe_def)

lemma quote_char_chars: "set (quote_char c) \<subseteq> set always_safe \<union> {CHR ''%'', CHR ''+''}"
  by (auto simp: quote_char_def hex_digit_safe)

lemma quote_plus_chars: "set (quote_plus s) \<subseteq> set always_safe \<union> {CHR ''%'', CHR ''+''}"
  using quote_char_chars by (fastforce simp: quote_plus_def)

lemma quote_plus_no_separator:
  "CHR ''&'' \<notin> set (quote_plus s)" "CHR ''='' \<notin> set (quote_plus s)"
proof -
  have "CHR ''&'' \<notin> set always_safe \<union> {CHR ''%'', CHR ''+''}"
    and "CHR ''='' \<notin> set always_safe \<union> {CHR ''%'', CHR ''+''}"
    by (simp_all add: always_safe_def)
  then show "CHR ''&'' \<notin> set (quote_plus s)" "CHR ''='' \<notin> set (quote_plus s)"
    using quote_plus_chars [of s] by blast+
qed

lemma byte_of_hex_digits:
  "char_of (16 * ((of_char c div 16) mod 16) + (of_char c :: nat) mod 16) = c"
proof -
  have "(of_char c :: nat) < 16 * 16" by simp
  then have "(of_char c :: nat) div 16 < 16"
    by (rule less_mult_imp_div_less)
  then have "(of_char c div 16) mod 16 = (of_char c :: nat) div 16" by simp
  then show ?thesis by simp
qed

lemma unquote_plus_quote_char: "unquote_plus (quote_char c @ rest) = c # unquote_plus rest"
proof (cases "c \<in> set always_safe")
  case True
  then have "c \<noteq> CHR ''+''" "c \<noteq> CHR ''%''"
    by (auto simp: always_safe_def)
  with True show ?thesis by (simp add: quote_char_def)
next
  case False
  show ?thesis
  proof (cases "c = CHR '' ''")
    case True
    with False show ?thesis by (simp add: quote_char_def)
  next
    case space: False
    with False show ?thesis
      by (simp add: quote_char_def hex_digit_value byte_of_hex_digits)
  qed
qed

lemma unquote_plus_quote_plus: "unquote_plus (quote_plus s) = s"
proof (induction s)
  case Nil
  show ?case by (simp add: quote_plus_def)
next
  case (Cons c s)
  have "quote_plus (c # s) = quote_char c @ quote_plus s"
    by (simp add: quote_plus_def)
  then show ?case
    by (simp add: unquote_plus_quote_char Cons.IH)
qed

subsection \<open>Splitting what was joined\<close>

lemma split_acc_append:
  "d \<notin> set p \<Longrightarrow> split_acc d cur (p @ rest) = split_acc d (rev p @ cur) rest"
  by (induction p arbitrary: cur) auto

lemma split_acc_piece: "d \<notin> set p \<Longrightarrow> split_acc d cur p = [rev cur @ p]"
  using split_acc_append [of d p cur "[]"] by simp

lemma str_split_join:
  "ps \<noteq> [] \<Longrightarrow> \<forall>p\<in>set ps. d \<notin> set p \<Longrightarrow> str_split (join [d] ps) d = ps"
proof (induction "[d]" ps rule: join.induct)
  case 1
  then show ?case by simp
next
  case (2 x)
  then show ?case by (simp add: str_split_def split_acc_piece)
next
  case (3 x y ys)
  then have "str_split (join [d] (y # ys)) d = y # ys"
    by simp
  moreover have "d \<notin> set x"
    using 3 by simp
  ultimately show ?case
    by (simp add: str_split_def split_acc_append)
qed

lemma decode_item_urlencode_item: "decode_item (urlencode_item (k, t)) = (k, t)"
proof -
  have no_eq: "\<And>c. c \<in> set (quote_plus k) \<Longrightarrow> c \<noteq> CHR ''=''"
    using quote_plus_no_separator(2) [of k] by auto
  have "takeWhile (\<lambda>c. c \<noteq> CHR ''='') (quote_plus k @ ''='' @ quote_plus t) =
          quote_plus k"
    using no_eq by (simp add: takeWhile_append2)
  moreover have "dropWhile (\<lambda>c. c \<noteq> CHR ''='') (quote_plus k @ ''='' @ quote_plus t) =
          ''='' @ quote_plus t"
    using no_eq by (simp add: dropWhile_append2)
  ultimately show ?thesis
    by (simp add: decode_item_def urlencode_item_def unquote_plus_quote_plus)
qed

lemma urlencode_item_no_amp: "CHR ''&'' \<notin> set (urlencode_item kv)"
  by (simp add: urlencode_item_def quote_plus_no_separator(1))

lemma str_split_urlencode:
  "kvs \<noteq> [] \<Longrightarrow>
   str_split (join ''&'' (map urlencode_item kvs)) CHR ''&'' = map urlencode_item kvs"
  by (rule str_split_join) (auto simp: urlencode_item_no_amp)

lemma decode_query_urlencode:
  "kvs \<noteq> [] \<Longrightarrow> decode_query (join ''&'' (map urlencode_item kvs)) = kvs"
proof -
  have "decode_item (urlencode_item kv) = kv" for kv
    by (cases kv) (simp add: decode_item_urlencode_item)
  then have "map (decode_item \<circ> urlencode_item) kvs = kvs"
    by (simp add: map_idI)
  then show "kvs \<noteq> [] \<Longrightarrow> ?thesis"
    by (simp add: decode_query_def str_split_urlencode)
qed

lemma join_chars: "set (join d xs) \<subseteq> set d \<union> \<Union> (set ` set xs)"
  by (induction d xs rule: join.induct) auto

lemma urlencode_chars:
  "set (join ''&'' (map urlencode_item kvs))
     \<subseteq> set always_safe \<union> {CHR ''%'', CHR ''+'', CHR ''='', CHR ''&''}"
proof -
  have "set (urlencode_item kv) \<subseteq> set always_safe \<union> {CHR ''%'', CHR ''+'', CHR ''=''}" for kv
    using quote_plus_chars [of "fst kv"] quote_plus_chars [of "snd kv"]
    by (auto simp: urlencode_item_def)
  then show ?thesis
    using join_chars [of "''&''" "map urlencode_item kvs"]
    by fastforce
qed

subsection \<open>The values that \<^verbatim>\<open>str\<close> refuses\<close>

lemma is_ascii_append: "is_ascii (s @ t) \<longleftrightarrow> is_ascii s \<and> is_ascii t"
  by (simp add: is_ascii_def)

lemma is_ascii_callback: "is_ascii ''oauth2callback''"
  by (simp add: is_ascii_def)

text \<open>
  The parameters in the order of the model, with the value of \<^verbatim>\<open>client_id\<close> and
  of \<^verbatim>\<open>state\<close> as \<^verbatim>\<open>str\<close> gives them.
\<close>

lemma urlencode_get_params:
  assumes "is_ascii (url_root req)"
    and "case map_of (args req) ''next'' of None \<Rightarrow> True | Some v \<Rightarrow> is_ascii v"
  shows "urlencode (get_params a req) =
           Inr (join ''&'' (map urlencode_item
             [(''scope'', SCOPE_email),
              (''redirect_uri'', url_root req @ ''oauth2callback''),
              (''response_type'', RESPONSE_TYPE),
              (''state'', (case map_of (args req) ''next'' of Some v \<Rightarrow> v | None \<Rightarrow> ''/'')),
              (''client_id'', (case CLIENT_ID a of None \<Rightarrow> ''None'' | Some c \<Rightarrow> c))]))"
  using assms
  by (auto simp: urlencode_def get_params_def Let_def is_ascii_append is_ascii_callback
      split: option.split)

text \<open>
  The login URL is built exactly when the URL root and the \<^verbatim>\<open>next\<close> parameter,
  if the request has one, are ASCII. Otherwise \<^verbatim>\<open>urlencode\<close> raises.
\<close>

lemma get_google_login_url_raises:
  assumes "\<not> is_ascii (url_root req)
           \<or> (\<exists>v. map_of (args req) ''next'' = Some v \<and> \<not> is_ascii v)"
  shows "get_google_login_url a req = Inl UnicodeEncodeError"
  using assms
  by (auto simp: get_google_login_url_def urlencode_def get_params_def Let_def
      is_ascii_append is_ascii_callback split: option.split)

text \<open>
  For a request whose URL root and \<^verbatim>\<open>next\<close> parameter are ASCII, the login URL
  is the provider's authorization endpoint, a \<^verbatim>\<open>?\<close> and a query string such
  that: \<^verbatim>\<open>response_type=token\<close> is one of the pieces that \<^verbatim>\<open>&\<close> separates; so
  is \<^verbatim>\<open>state=\<close> followed by the quoted return path, where the return path is the
  request's \<^verbatim>\<open>next\<close> parameter, or \<^verbatim>\<open>/\<close> when the request has none; the query
  string is made of letters, digits, \<^verbatim>\<open>_.-\<close>, \<^verbatim>\<open>%\<close>, \<^verbatim>\<open>+\<close> and the two
  separators only; and read back, it gives each of the five parameters its value:
  \<^verbatim>\<open>state\<close> the return path as the request had it, \<^verbatim>\<open>response_type\<close> the word
  \<^verbatim>\<open>token\<close>, \<^verbatim>\<open>redirect_uri\<close> the callback URL, \<^verbatim>\<open>scope\<close> the email scope
  and \<^verbatim>\<open>client_id\<close> the text of the client id.
\<close>

lemma get_google_login_url_ascii:
  assumes "is_ascii (url_root req)"
    and "case map_of (args req) ''next'' of None \<Rightarrow> True | Some v \<Rightarrow> is_ascii v"
  shows "\<exists>query.
     get_google_login_url a req =
       Inr (''https://accounts.google.com/o/oauth2/auth'' @ ''?'' @ query)
     \<and> ''response_type=token'' \<in> set (str_split query CHR ''&'')
     \<and> ''state='' @ quote_plus (case map_of (args req) ''next'' of Some v \<Rightarrow> v | None \<Rightarrow> ''/'')
         \<in> set (str_split query CHR ''&'')
     \<and> set query \<subseteq> set always_safe \<union> {CHR ''%'', CHR ''+'', CHR ''='', CHR ''&''}
     \<and> map_of (decode_query query) ''state'' =
         Some (case map_of (args req) ''next'' of Some v \<Rightarrow> v | None \<Rightarrow> ''/'')
     \<and> map_of (decode_query query) ''response_type'' = Some ''token''
     \<and> map_of (decode_query query) ''redirect_uri'' = Some (url_root req @ ''oauth2callback'')
     \<and> map_of (decode_query query) ''scope'' =
         Some ''https://www.googleapis.com/auth/userinfo.email''
     \<and> map_of (decode_query query) ''client_id'' =
         Some (case CLIENT_ID a of None \<Rightarrow> ''None'' | Some c \<Rightarrow> c)"
proof -
  let ?kvs = "[(''scope'', SCOPE_email),
               (''redirect_uri'', url_root req @ ''oauth2callback''),
               (''response_type'', RESPONSE_TYPE),
               (''state'', (case map_of (args req) ''next'' of Some v \<Rightarrow> v | None \<Rightarrow> ''/'')),
               (''client_id'', (case CLIENT_ID a of None \<Rightarrow> ''None'' | Some c \<Rightarrow> c))]"
  let ?query = "join ''&'' (map urlencode_item ?kvs)"
  have nonempty: "?kvs \<noteq> []"
    by simp
  have url: "get_google_login_url a req =
      Inr (''https://accounts.google.com/o/oauth2/auth'' @ ''?'' @ ?query)"
    unfolding get_google_login_url_def urlencode_get_params [OF assms]
    by (simp add: ENDPOINT_get_token_or_code_def)
  have pieces: "str_split ?query CHR ''&'' = map urlencode_item ?kvs"
    by (rule str_split_urlencode [OF nonempty])
  have safe_token: "quote_plus ''token'' = ''token''"
    and safe_names: "quote_plus ''response_type'' = ''response_type''"
      "quote_plus ''state'' = ''state''"
    by (simp_all add: quote_plus_def quote_char_def always_safe_def)
  have response_type: "''response_type=token'' \<in> set (str_split ?query CHR ''&'')"
    unfolding pieces
    by (simp add: urlencode_item_def RESPONSE_TYPE_def safe_token safe_names)
  have state: "''state='' @ quote_plus (case map_of (args req) ''next'' of Some v \<Rightarrow> v | None \<Rightarrow> ''/'')
      \<in> set (str_split ?query CHR ''&'')"
    unfolding pieces
    by (simp add: urlencode_item_def safe_names)
  have decoded: "decode_query ?query = ?kvs"
    by (rule decode_query_urlencode [OF nonempty])
  have read_state: "map_of (decode_query ?query) ''state'' =
      Some (case map_of (args req) ''next'' of Some v \<Rightarrow> v | None \<Rightarrow> ''/'')"
    unfolding decoded by simp
  have read_response_type: "map_of (decode_query ?query) ''response_type'' = Some ''token''"
    unfolding decoded by (simp add: RESPONSE_TYPE_def)
  have read_redirect_uri: "map_of (decode_query ?query) ''redirect_uri'' =
      Some (url_root req @ ''oauth2callback'')"
    unfolding decoded by simp
  have read_scope: "map_of (decode_query ?query) ''scope'' =
      Some ''https://www.googleapis.com/auth/userinfo.email''"
    unfolding decoded by (simp add: SCOPE_email_def)
  have read_client_id: "map_of (decode_query ?query) ''client_id'' =
      Some (case CLIENT_ID a of None \<Rightarrow> ''None'' | Some c \<Rightarrow> c)"
    unfolding decoded by simp
  from url response_type state urlencode_chars [of ?kvs]
    read_state read_response_type read_redirect_uri read_scope read_client_id
  show ?thesis
    by (intro exI [of _ ?query] conjI)
qed

lemma get_google_login_url_built:
  "(\<exists>url. get_google_login_url a req = Inr url) \<longleftrightarrow>
     is_ascii (url_root req)
     \<and> (case map_of (args req) ''next'' of None \<Rightarrow> True | Some v \<Rightarrow> is_ascii v)"
proof
  assume built: "\<exists>url. get_google_login_url a req = Inr url"
  show "is_ascii (url_root req)
     \<and> (case map_of (args req) ''next'' of None \<Rightarrow> True | Some v \<Rightarrow> is_ascii v)"
  proof (rule ccontr)
    assume "\<not> (is_ascii (url_root req)
     \<and> (case map_of (args req) ''next'' of None \<Rightarrow> True | Some v \<Rightarrow> is_ascii v))"
    then have "\<not> is_ascii (url_root req)
           \<or> (\<exists>v. map_of (args req) ''next'' = Some v \<and> \<not> is_ascii v)"
      by (cases "map_of (args req) ''next''") auto
    from get_google_login_url_raises [OF this, of a] built show False
      by simp
  qed
next
  assume "is_ascii (url_root req)
     \<and> (case map_of (args req) ''next'' of None \<Rightarrow> True | Some v \<Rightarrow> is_ascii v)"
  then show "\<exists>url. get_google_login_url a req = Inr url"
    using get_google_login_url_ascii [of req a] by blast
qed

lemma demo_request_ascii:
  "is_ascii (url_root (demo_request params))"
  by (simp add: demo_request_def is_ascii_def)

lemma demo_login_url:
  "\<exists>query.
     get_google_login_url demo_app (demo_request [(''next'', ''/my page?x=1'')]) =
       Inr (''https://accounts.google.com/o/oauth2/auth'' @ ''?'' @ query)
     \<and> ''state=%2Fmy+page%3Fx%3D1'' \<in> set (str_split query CHR ''&'')
     \<and> map_of (decode_query query) ''state'' = Some ''/my page?x=1''"
proof -
  have next_ascii: "case map_of (args (demo_request [(''next'', ''/my page?x=1'')])) ''next'' of
      None \<Rightarrow> True | Some v \<Rightarrow> is_ascii v"
    by (simp add: demo_request_def is_ascii_def)
  have quoted: "quote_plus ''/my page?x=1'' = ''%2Fmy+page%3Fx%3D1''"
    by (simp add: quote_plus_def quote_char_def always_safe_def hex_digit_def)
  from get_google_login_url_ascii [OF demo_request_ascii next_ascii, of demo_app]
  show ?thesis
    unfolding quoted [symmetric] by (auto simp: demo_request_def)
qed

text \<open>
  Claim C6 fails for a request whose \<^verbatim>\<open>next\<close> parameter is not ASCII. The
  request \<^verbatim>\<open>/sign_in?next=%C3%A9\<close> has for \<^verbatim>\<open>next\<close> the one letter
  \<^verbatim>\<open>U+00E9\<close>, bytes \<^verbatim>\<open>C3 A9\<close> in UTF-8: \<^verbatim>\<open>urlencode\<close> calls \<^verbatim>\<open>str\<close> on it, the
  call raises \<^verbatim>\<open>UnicodeEncodeError\<close>, and no URL is produced: neither
  \<^verbatim>\<open>response_type=token\<close> nor the return path as \<^verbatim>\<open>state\<close>.
\<close>

theorem get_google_login_url_non_ascii:
  "map_of (args (demo_request [(''next'', [CHR 0xC3, CHR 0xA9])])) ''next'' =
     Some [CHR 0xC3, CHR 0xA9]
   \<and> param_str (PUni [CHR 0xC3, CHR 0xA9]) = Inl UnicodeEncodeError
   \<and> urlencode (get_params demo_app (demo_request [(''next'', [CHR 0xC3, CHR 0xA9])])) =
       Inl UnicodeEncodeError
   \<and> get_google_login_url demo_app (demo_request [(''next'', [CHR 0xC3, CHR 0xA9])]) =
       Inl UnicodeEncodeError
   \<and> (\<forall>url. get_google_login_url demo_app (demo_request [(''next'', [CHR 0xC3, CHR 0xA9])]) \<noteq>
       Inr url)"
  by (simp add: get_google_login_url_def urlencode_def get_params_def Let_def is_ascii_def
      demo_request_def demo_app_def)

section \<open>Properties of the token-capture handler\<close>

lemma validate_token_reply:
  assumes "provider a (Get (ENDPOINT_validate_token @ ''?access_token='' @ token) []) =
             Inr token_info"
    and "py_in ''error'' token_info = Inr b"
  shows "validate_token a token s =
           (Inr (\<not> b),
            s\<lparr>calls := calls s @
                 [Get (ENDPOINT_validate_token @ ''?access_token='' @ token) []]\<rparr>)"
  using assms by (simp add: validate_token_def urlopen_json_def Let_def)

lemma get_user_info_reply:
  "get_user_info_from_token a token s =
     (provider a (Get ENDPOINT_get_user_info [(''Authorization'', ''Bearer '' @ token)]),
      s\<lparr>calls := calls s @
           [Get ENDPOINT_get_user_info [(''Authorization'', ''Bearer '' @ token)]]\<rparr>)"
  by (simp add: get_user_info_from_token_def urlopen_json_def Let_def)

lemma sign_in_out_page:
  "sign_in_out header color a req =
     (case get_google_login_url a req of
        Inl e \<Rightarrow> Inl e
      | Inr url \<Rightarrow>
          Inr (Render ''sign_in_out.html''
                 [(''header'', header), (''color'', color), (''sign_in_url'', url)]))"
  by (simp add: sign_in_out_def)

lemma catch_token_rejects_token:
  assumes "map_of (args req) ''access_token'' = Some token"
    and "provider a (Get (ENDPOINT_validate_token @ ''?access_token='' @ token) []) =
           Inr token_info"
    and "py_in ''error'' token_info = Inr True"
  shows "catch_token a req s =
           (sign_in_out ''Invalid token'' ''danger'' a req,
            s\<lparr>logger := logger s @ [Debug ''Successfully caught access token.'',
                                     Warn ''Access token is invalid.''],
              calls := calls s @
                [Get (ENDPOINT_validate_token @ ''?access_token='' @ token) []]\<rparr>)"
  using assms(1) validate_token_reply [OF assms(2,3)]
  by (simp add: catch_token_def args_getitem_def log_call_def Let_def)

lemma catch_token_rejects_email:
  assumes "map_of (args req) ''access_token'' = Some token"
    and "provider a (Get (ENDPOINT_validate_token @ ''?access_token='' @ token) []) =
           Inr token_info"
    and "py_in ''error'' token_info = Inr False"
    and "provider a (Get ENDPOINT_get_user_info [(''Authorization'', ''Bearer '' @ token)]) =
           Inr (JObj kvs)"
    and "map_of kvs ''email'' = Some (JStr email)"
    and "all_users a email = None"
  shows "catch_token a req s =
           (sign_in_out ''Unauthorized'' ''warning'' a req,
            s\<lparr>logger := logger s @ [Debug ''Successfully caught access token.'',
                                     Debug ''Access token is valid.'',
                                     Debug ''Gathered user infos successfully.'',
                                     Warn (email @ '' tried to sign in.'')],
              calls := calls s @
                [Get (ENDPOINT_validate_token @ ''?access_token='' @ token) [],
                 Get ENDPOINT_get_user_info [(''Authorization'', ''Bearer '' @ token)]]\<rparr>)"
  using assms(1,4,5,6) validate_token_reply [OF assms(2,3)]
  by (simp add: catch_token_def args_getitem_def log_call_def Let_def get_user_info_reply)

lemma catch_token_signs_in:
  assumes "map_of (args req) ''access_token'' = Some token"
    and "provider a (Get (ENDPOINT_validate_token @ ''?access_token='' @ token) []) =
           Inr token_info"
    and "py_in ''error'' token_info = Inr False"
    and "provider a (Get ENDPOINT_get_user_info [(''Authorization'', ''Bearer '' @ token)]) =
           Inr (JObj kvs)"
    and "map_of kvs ''email'' = Some (JStr email)"
    and "all_users a email = Some user"
  shows "catch_token a req s =
           (let s' = s\<lparr>current_user := Some user,
                        logger := logger s @ [Debug ''Successfully caught access token.'',
                                               Debug ''Access token is valid.'',
                                               Debug ''Gathered user infos successfully.'',
                                               UserInfo user ''Signed in.''],
                        calls := calls s @
                          [Get (ENDPOINT_validate_token @ ''?access_token='' @ token) [],
                           Get ENDPOINT_get_user_info
                             [(''Authorization'', ''Bearer '' @ token)]]\<rparr>
            in case map_of (args req) ''state'' of
                 None \<Rightarrow> (Inl (BadRequestKeyError ''state''), s')
               | Some location \<Rightarrow> (Inr (Redirect location), s'))"
  using assms(1,4,5,6) validate_token_reply [OF assms(2,3)]
  by (simp add: catch_token_def args_getitem_def log_call_def Let_def get_user_info_reply
      login_user_def split: option.split)

text \<open>
  Claim C10. A token-capture request without the \<^verbatim>\<open>access_token\<close> parameter
  fails with the framework's bad-request error on that key, and leaves the state
  as it was: nothing is sent to the provider, nothing is logged, and the session
  is not touched.
\<close>

theorem catch_token_missing_access_token:
  assumes "map_of (args req) ''access_token'' = None"
  shows "catch_token a req s = (Inl (BadRequestKeyError ''access_token''), s)"
  using assms by (simp add: catch_token_def args_getitem_def)

theorem catch_token_missing_access_token_witness:
  "map_of (args (demo_request [(''state'', ''/home'')])) ''access_token'' = None
   \<and> catch_token demo_app (demo_request [(''state'', ''/home'')]) anonymous =
       (Inl (BadRequestKeyError ''access_token''), anonymous)"
proof -
  have h: "map_of (args (demo_request [(''state'', ''/home'')])) ''access_token'' = None"
    by (simp add: demo_request_def)
  from h catch_token_missing_access_token [OF h, of demo_app anonymous]
  show ?thesis by simp
qed

subsection \<open>A token that the provider refuses\<close>

text \<open>
  When the provider's token-info response is a dict with an \<^verbatim>\<open>error\<close> key, the
  session's user is the one it was before; the only request sent to the provider
  is the token-info one, so the user-info call is never made; the warning is
  logged; and the answer is the page \<^verbatim>\<open>sign_in_out.html\<close> under the header
  \<^verbatim>\<open>Invalid token\<close> with the login URL built for this request, if that URL is
  built, and the exception of \<^verbatim>\<open>urlencode\<close> if it is not.
\<close>

lemma catch_token_invalid:
  assumes "map_of (args req) ''access_token'' = Some token"
    and "provider a (Get (ENDPOINT_validate_token @ ''?access_token='' @ token) []) =
           Inr (JObj kvs)"
    and "''error'' \<in> set (map fst kvs)"
  shows "fst (catch_token a req s) =
           (case get_google_login_url a req of
              Inl e \<Rightarrow> Inl e
            | Inr url \<Rightarrow>
                Inr (Render ''sign_in_out.html''
                       [(''header'', ''Invalid token''), (''color'', ''danger''),
                        (''sign_in_url'', url)]))
       \<and> current_user (snd (catch_token a req s)) = current_user s
       \<and> calls (snd (catch_token a req s)) =
           calls s @ [Get (ENDPOINT_validate_token @ ''?access_token='' @ token) []]
       \<and> logger (snd (catch_token a req s)) =
           logger s @ [Debug ''Successfully caught access token.'',
                       Warn ''Access token is invalid.'']"
proof -
  have "py_in ''error'' (JObj kvs) = Inr True"
    using assms(3) by simp
  from catch_token_rejects_token [OF assms(1,2) this, of s]
  show ?thesis by (simp add: sign_in_out_page)
qed

lemma demo_invalid_token:
  "\<exists>url. fst (catch_token demo_app
         (demo_request [(''access_token'', ''bad''), (''state'', ''/home'')]) anonymous) =
       Inr (Render ''sign_in_out.html''
              [(''header'', ''Invalid token''), (''color'', ''danger''), (''sign_in_url'', url)])"
proof -
  let ?req = "demo_request [(''access_token'', ''bad''), (''state'', ''/home'')]"
  have h1: "map_of (args ?req) ''access_token'' = Some ''bad''"
    by (simp add: demo_request_def)
  have h2: "provider demo_app (Get (ENDPOINT_validate_token @ ''?access_token='' @ ''bad'') []) =
              Inr (JObj [(''error'', JStr ''invalid_token'')])"
    by (simp add: demo_app_def demo_provider_def ENDPOINT_validate_token_def)
  have h3: "''error'' \<in> set (map fst [(''error'', JStr ''invalid_token'')])"
    by simp
  have "case map_of (args ?req) ''next'' of None \<Rightarrow> True | Some v \<Rightarrow> is_ascii v"
    by (simp add: demo_request_def)
  from get_google_login_url_ascii [OF demo_request_ascii this, of demo_app]
  obtain url where "get_google_login_url demo_app ?req = Inr url"
    by blast
  with catch_token_invalid [OF h1 h2 h3, of anonymous]
  show ?thesis by simp
qed

text \<open>
  Claim C2 fails in its last part for a request whose \<^verbatim>\<open>next\<close> parameter is not
  ASCII. For \<^verbatim>\<open>/catch_token?access_token=bad&next=%C3%A9\<close>, where the provider
  answers the token-info request with an \<^verbatim>\<open>error\<close>, no session is made and the
  user-info call is not sent, as claimed; but the sign-in page is not rendered:
  the handler ends with the \<^verbatim>\<open>UnicodeEncodeError\<close> raised while the login URL
  is built.
\<close>

theorem catch_token_invalid_non_ascii:
  "provider demo_app (Get (ENDPOINT_validate_token @ ''?access_token='' @ ''bad'') []) =
     Inr (JObj [(''error'', JStr ''invalid_token'')])
   \<and> fst (catch_token demo_app
         (demo_request [(''access_token'', ''bad''), (''next'', [CHR 0xC3, CHR 0xA9])])
         anonymous) = Inl UnicodeEncodeError
   \<and> current_user (snd (catch_token demo_app
         (demo_request [(''access_token'', ''bad''), (''next'', [CHR 0xC3, CHR 0xA9])])
         anonymous)) = None
   \<and> calls (snd (catch_token demo_app
         (demo_request [(''access_token'', ''bad''), (''next'', [CHR 0xC3, CHR 0xA9])])
         anonymous)) =
       [Get ''https://www.googleapis.com/oauth2/v1/tokeninfo?access_token=bad'' []]
   \<and> logger (snd (catch_token demo_app
         (demo_request [(''access_token'', ''bad''), (''next'', [CHR 0xC3, CHR 0xA9])])
         anonymous)) =
       [Debug ''Successfully caught access token.'', Warn ''Access token is invalid.'']"
  by (simp add: catch_token_def args_getitem_def log_call_def Let_def validate_token_def
      urlopen_json_def sign_in_out_def get_google_login_url_def urlencode_def get_params_def
      is_ascii_def demo_app_def demo_request_def anonymous_def demo_provider_def
      ENDPOINT_validate_token_def)

subsection \<open>An email that is not in the directory\<close>

text \<open>
  When the token validates (the token-info response has no \<^verbatim>\<open>error\<close>) and the
  user-info response gives an email that is not a key of the directory, the
  session's user is the one it was before; the last entry logged is the warning
  that names the email; and the answer is the page \<^verbatim>\<open>sign_in_out.html\<close> under
  the header \<^verbatim>\<open>Unauthorized\<close> with the login URL built for this request, if that
  URL is built, and the exception of \<^verbatim>\<open>urlencode\<close> if it is not.
\<close>

lemma catch_token_unauthorized:
  assumes "map_of (args req) ''access_token'' = Some token"
    and "provider a (Get (ENDPOINT_validate_token @ ''?access_token='' @ token) []) =
           Inr token_info"
    and "py_in ''error'' token_info = Inr False"
    and "provider a (Get ENDPOINT_get_user_info [(''Authorization'', ''Bearer '' @ token)]) =
           Inr (JObj kvs)"
    and "map_of kvs ''email'' = Some (JStr email)"
    and "all_users a email = None"
  shows "fst (catch_token a req s) =
           (case get_google_login_url a req of
              Inl e \<Rightarrow> Inl e
            | Inr url \<Rightarrow>
                Inr (Render ''sign_in_out.html''
                       [(''header'', ''Unauthorized''), (''color'', ''warning''),
                        (''sign_in_url'', url)]))
       \<and> current_user (snd (catch_token a req s)) = current_user s
       \<and> logger (snd (catch_token a req s)) =
           logger s @ [Debug ''Successfully caught access token.'',
                       Debug ''Access token is valid.'',
                       Debug ''Gathered user infos successfully.'',
                       Warn (email @ '' tried to sign in.'')]"
  using catch_token_rejects_email [OF assms, of s] by (simp add: sign_in_out_page)

lemma demo_unauthorized:
  "\<exists>url. fst (catch_token demo_app
         (demo_request [(''access_token'', ''guest''), (''state'', ''/home'')]) anonymous) =
       Inr (Render ''sign_in_out.html''
              [(''header'', ''Unauthorized''), (''color'', ''warning''), (''sign_in_url'', url)])"
proof -
  let ?req = "demo_request [(''access_token'', ''guest''), (''state'', ''/home'')]"
  have h1: "map_of (args ?req) ''access_token'' = Some ''guest''"
    by (simp add: demo_request_def)
  have h2: "provider demo_app (Get (ENDPOINT_validate_token @ ''?access_token='' @ ''guest'') []) =
              Inr (JObj [(''audience'', JStr ''cid'')])"
    by (simp add: demo_app_def demo_provider_def ENDPOINT_validate_token_def)
  have h3: "py_in ''error'' (JObj [(''audience'', JStr ''cid'')]) = Inr False"
    by simp
  have h4: "provider demo_app
              (Get ENDPOINT_get_user_info [(''Authorization'', ''Bearer '' @ ''guest'')]) =
            Inr (JObj [(''email'', JStr ''z@x.com'')])"
    by (simp add: demo_app_def demo_provider_def ENDPOINT_validate_token_def
        ENDPOINT_get_user_info_def)
  have h5: "map_of [(''email'', JStr ''z@x.com'')] ''email'' = Some (JStr ''z@x.com'')"
    by simp
  have h6: "all_users demo_app ''z@x.com'' = None"
    by (simp add: demo_app_def populate_def dict_of_def)
  have "case map_of (args ?req) ''next'' of None \<Rightarrow> True | Some v \<Rightarrow> is_ascii v"
    by (simp add: demo_request_def)
  from get_google_login_url_ascii [OF demo_request_ascii this, of demo_app]
  obtain url where "get_google_login_url demo_app ?req = Inr url"
    by blast
  with catch_token_unauthorized [OF h1 h2 h3 h4 h5 h6, of anonymous]
  show ?thesis by simp
qed

text \<open>
  Claim C1 fails in its last part for a request whose \<^verbatim>\<open>next\<close> parameter is not
  ASCII. For \<^verbatim>\<open>/catch_token?access_token=guest&next=%C3%A9\<close>, where the token
  validates and resolves to \<^verbatim>\<open>z@x.com\<close>, which is not in the directory, no
  session is made and the warning naming the email is logged, as claimed; but
  the sign-in page is not rendered: the handler ends with the
  \<^verbatim>\<open>UnicodeEncodeError\<close> raised while the login URL is built.
\<close>

theorem catch_token_unauthorized_non_ascii:
  "all_users demo_app ''z@x.com'' = None
   \<and> provider demo_app
         (Get ENDPOINT_get_user_info [(''Authorization'', ''Bearer '' @ ''guest'')]) =
       Inr (JObj [(''email'', JStr ''z@x.com'')])
   \<and> fst (catch_token demo_app
         (demo_request [(''access_token'', ''guest''), (''next'', [CHR 0xC3, CHR 0xA9])])
         anonymous) = Inl UnicodeEncodeError
   \<and> current_user (snd (catch_token demo_app
         (demo_request [(''access_token'', ''guest''), (''next'', [CHR 0xC3, CHR 0xA9])])
         anonymous)) = None
   \<and> logger (snd (catch_token demo_app
         (demo_request [(''access_token'', ''guest''), (''next'', [CHR 0xC3, CHR 0xA9])])
         anonymous)) =
       [Debug ''Successfully caught access token.'', Debug ''Access token is valid.'',
        Debug ''Gathered user infos successfully.'', Warn ''z@x.com tried to sign in.'']"
  by (simp add: catch_token_def args_getitem_def log_call_def Let_def validate_token_def
      urlopen_json_def get_user_info_from_token_def sign_in_out_def get_google_login_url_def
      urlencode_def get_params_def is_ascii_def demo_app_def demo_request_def anonymous_def
      demo_provider_def ENDPOINT_validate_token_def ENDPOINT_get_user_info_def populate_def
      dict_of_def)

subsection \<open>An email of the directory\<close>

text \<open>
  When the token validates and the user-info response gives an email that the
  directory maps to a user, the handler makes that user the session's user and
  logs the user's \<^verbatim>\<open>Signed in.\<close> entry, whatever the request's parameters are
  otherwise. Then it redirects to the value of \<^verbatim>\<open>state\<close> if the request has
  one, and raises the framework's bad-request error on \<^verbatim>\<open>state\<close> if it has
  none.
\<close>

lemma catch_token_authorized:
  assumes "map_of (args req) ''access_token'' = Some token"
    and "provider a (Get (ENDPOINT_validate_token @ ''?access_token='' @ token) []) =
           Inr token_info"
    and "py_in ''error'' token_info = Inr False"
    and "provider a (Get ENDPOINT_get_user_info [(''Authorization'', ''Bearer '' @ token)]) =
           Inr (JObj kvs)"
    and "map_of kvs ''email'' = Some (JStr email)"
    and "all_users a email = Some user"
  shows "fst (catch_token a req s) =
           (case map_of (args req) ''state'' of
              None \<Rightarrow> Inl (BadRequestKeyError ''state'')
            | Some location \<Rightarrow> Inr (Redirect location))
       \<and> current_user (snd (catch_token a req s)) = Some user
       \<and> logger (snd (catch_token a req s)) =
           logger s @ [Debug ''Successfully caught access token.'',
                       Debug ''Access token is valid.'',
                       Debug ''Gathered user infos successfully.'',
                       UserInfo user ''Signed in.'']"
  using catch_token_signs_in [OF assms, of s]
  by (simp add: Let_def split: option.split)

lemma demo_authorized:
  "fst (catch_token demo_app
         (demo_request [(''access_token'', ''good''), (''state'', ''/home'')]) anonymous) =
     Inr (Redirect ''/home'')
   \<and> current_user (snd (catch_token demo_app
         (demo_request [(''access_token'', ''good''), (''state'', ''/home'')]) anonymous)) =
       Some (User ''a@x.com'')"
proof -
  let ?req = "demo_request [(''access_token'', ''good''), (''state'', ''/home'')]"
  have h1: "map_of (args ?req) ''access_token'' = Some ''good''"
    by (simp add: demo_request_def)
  have h2: "provider demo_app (Get (ENDPOINT_validate_token @ ''?access_token='' @ ''good'') []) =
              Inr (JObj [(''audience'', JStr ''cid''), (''expires_in'', JNum ''3599'')])"
    by (simp add: demo_app_def demo_provider_def ENDPOINT_validate_token_def)
  have h3: "py_in ''error'' (JObj [(''audience'', JStr ''cid''), (''expires_in'', JNum ''3599'')]) =
              Inr False"
    by simp
  have h4: "provider demo_app
              (Get ENDPOINT_get_user_info [(''Authorization'', ''Bearer '' @ ''good'')]) =
            Inr (JObj [(''email'', JStr ''a@x.com''), (''verified_email'', JBool True)])"
    by (simp add: demo_app_def demo_provider_def ENDPOINT_validate_token_def
        ENDPOINT_get_user_info_def)
  have h5: "map_of [(''email'', JStr ''a@x.com''), (''verified_email'', JBool True)] ''email'' =
              Some (JStr ''a@x.com'')"
    by simp
  have h6: "all_users demo_app ''a@x.com'' = Some (User ''a@x.com'')"
    by (simp add: demo_app_def populate_def dict_of_def)
  have h7: "map_of (args ?req) ''state'' = Some ''/home''"
    by (simp add: demo_request_def)
  from catch_token_authorized [OF h1 h2 h3 h4 h5 h6, of anonymous] h7
  show ?thesis
    by simp
qed

text \<open>
  Claim C3 fails where the request has no \<^verbatim>\<open>state\<close> parameter. For
  \<^verbatim>\<open>/catch_token?access_token=good\<close>, the token validates and resolves to
  \<^verbatim>\<open>a@x.com\<close>, which the directory maps to a user: the handler signs that user
  in, and then raises the bad-request error on \<^verbatim>\<open>state\<close> instead of
  redirecting to \<^verbatim>\<open>/\<close>.
\<close>

theorem catch_token_state_absent:
  "map_of (args (demo_request [(''access_token'', ''good'')])) ''state'' = None
   \<and> all_users demo_app ''a@x.com'' = Some (User ''a@x.com'')
   \<and> fst (catch_token demo_app (demo_request [(''access_token'', ''good'')]) anonymous) =
       Inl (BadRequestKeyError ''state'')
   \<and> fst (catch_token demo_app (demo_request [(''access_token'', ''good'')]) anonymous) \<noteq>
       Inr (Redirect ''/'')
   \<and> current_user (snd (catch_token demo_app (demo_request [(''access_token'', ''good'')])
       anonymous)) = Some (User ''a@x.com'')
   \<and> logger (snd (catch_token demo_app (demo_request [(''access_token'', ''good'')])
       anonymous)) =
       [Debug ''Successfully caught access token.'', Debug ''Access token is valid.'',
        Debug ''Gathered user infos successfully.'',
        UserInfo (User ''a@x.com'') ''Signed in.'']"
  by (simp add: catch_token_def args_getitem_def log_call_def Let_def get_user_info_reply
      login_user_def validate_token_def urlopen_json_def demo_app_def demo_request_def
      anonymous_def demo_provider_def ENDPOINT_validate_token_def ENDPOINT_get_user_info_def
      populate_def dict_of_def)

section \<open>Properties of signing out\<close>

text \<open>
  A sign-out request from the anonymous user leaves the whole state as it was
  (the session's user, the log and the requests sent). Its answer is the one
  that the handler gives from any other state \<open>s'\<close>, a signed-in one included:
  the page \<^verbatim>\<open>sign_in_out.html\<close> under the header \<^verbatim>\<open>Goodbye\<close> with the login
  URL built for this request, if that URL is built, and the exception of
  \<^verbatim>\<open>urlencode\<close> if it is not.
\<close>

lemma sign_out_anonymous:
  assumes "current_user s = None"
  shows "snd (sign_out a req s) = s
       \<and> fst (sign_out a req s) =
           (case get_google_login_url a req of
              Inl e \<Rightarrow> Inl e
            | Inr url \<Rightarrow>
                Inr (Render ''sign_in_out.html''
                       [(''header'', ''Goodbye''), (''color'', ''success''),
                        (''sign_in_url'', url)]))
       \<and> fst (sign_out a req s') = fst (sign_out a req s)"
  using assms by (simp add: sign_out_def sign_in_out_page)

lemma sign_out_signed_in:
  assumes "current_user s = Some user"
  shows "snd (sign_out a req s) =
           s\<lparr>current_user := None, logger := logger s @ [UserInfo user ''Signed out.'']\<rparr>"
  using assms by (simp add: sign_out_def log_call_def logout_user_def)

lemma demo_sign_out:
  "\<exists>url. sign_out demo_app (demo_request []) anonymous =
     (Inr (Render ''sign_in_out.html''
             [(''header'', ''Goodbye''), (''color'', ''success''), (''sign_in_url'', url)]),
      anonymous)"
proof -
  have h: "current_user anonymous = None"
    by (simp add: anonymous_def)
  have "case map_of (args (demo_request [])) ''next'' of None \<Rightarrow> True | Some v \<Rightarrow> is_ascii v"
    by (simp add: demo_request_def)
  from get_google_login_url_ascii [OF demo_request_ascii this, of demo_app]
  obtain url where "get_google_login_url demo_app (demo_request []) = Inr url"
    by blast
  with sign_out_anonymous [OF h, of demo_app "demo_request []"]
  show ?thesis
    by (cases "sign_out demo_app (demo_request []) anonymous") auto
qed

text \<open>
  Claim C9 fails in its last part for a request whose \<^verbatim>\<open>next\<close> parameter is not
  ASCII. For \<^verbatim>\<open>/sign_out?next=%C3%A9\<close> from the anonymous user, the state is
  left as it was, as claimed; but the goodbye page is not rendered: the handler
  ends with the \<^verbatim>\<open>UnicodeEncodeError\<close> raised while the login URL is built.
\<close>

theorem sign_out_non_ascii:
  "current_user anonymous = None
   \<and> sign_out demo_app (demo_request [(''next'', [CHR 0xC3, CHR 0xA9])]) anonymous =
       (Inl UnicodeEncodeError, anonymous)"
  by (simp add: sign_out_def sign_in_out_def get_google_login_url_def urlencode_def
      get_params_def is_ascii_def demo_app_def demo_request_def anonymous_def)

section \<open>Properties of the user directory\<close>

lemma map_of_users:
  "map_of (map (\<lambda>e. (e, User e)) xs) email =
     (if email \<in> set xs then Some (User email) else None)"
  by (induction xs) auto

lemma populate_lookup:
  "populate emails email = (if email \<in> set emails then Some (User email) else None)"
  using map_of_users [of "rev emails" email]
  by (simp add: populate_def dict_of_def rev_map)

lemma populate_from_config_lookup:
  assumes "config_get cfg ''PROJECT'' ''AUTHORIZED_EMAILS'' = Inr (VStr v)"
  shows "populate_from_config cfg = Inr (populate (authorized_emails v))"
    and "map_option get_id (get_from_id (populate (authorized_emails v)) (KStr email)) =
           (if email \<in> set (authorized_emails v) then Some email else None)"
  using assms by (simp_all add: populate_from_config_def populate_lookup)

lemma strip_clean: "strip [] = []"
  by (simp add: strip_def)

lemma authorized_emails_join:
  assumes "\<forall>e\<in>set emails. e \<noteq> [] \<and> CHR '','' \<notin> set e \<and> strip e = e"
  shows "authorized_emails (join '','' emails) = emails"
proof (cases "emails = []")
  case True
  then show ?thesis
    by (simp add: authorized_emails_def str_split_def strip_clean)
next
  case False
  then have "str_split (join '','' emails) CHR '','' = emails"
    using assms by (intro str_split_join) auto
  moreover have "filter (\<lambda>e. strip e \<noteq> []) emails = emails"
    using assms by (auto intro: filter_True)
  moreover have "map strip emails = emails"
    using assms by (auto intro: map_idI)
  ultimately show ?thesis
    by (simp add: authorized_emails_def)
qed

text \<open>
  Claim C4. Let the value of \<^verbatim>\<open>PROJECT.AUTHORIZED_EMAILS\<close> be a list of emails
  joined by commas, each email non-empty, free of commas and of surrounding white
  space. Then the directory is populated; its keys are exactly the emails of the
  list; and the lookup by id gives, for every string, a user whose id is that
  very string when the string is one of the emails, and nothing when it is not.
  The comparison is equality of strings, so an email written in another case is
  not found. The witness is the spec's scenario: the file with
  \<^verbatim>\<open>AUTHORIZED_EMAILS=a@x.com,b@x.com\<close> gives the directory of exactly those
  two users.
\<close>

theorem directory_lookup:
  assumes "config_get cfg ''PROJECT'' ''AUTHORIZED_EMAILS'' = Inr (VStr (join '','' emails))"
    and "\<forall>e\<in>set emails. e \<noteq> [] \<and> CHR '','' \<notin> set e \<and> strip e = e"
  shows "\<exists>all. populate_from_config cfg = Inr all
           \<and> dom all = set emails
           \<and> (\<forall>email. map_option get_id (get_from_id all (KStr email)) =
                 (if email \<in> set emails then Some email else None))"
proof -
  have list: "authorized_emails (join '','' emails) = emails"
    by (rule authorized_emails_join [OF assms(2)])
  have "dom (populate emails) = set emails"
    by (auto simp: populate_lookup dom_def)
  with populate_from_config_lookup [OF assms(1)] list show ?thesis
    by auto
qed

lemma demo_config_emails:
  "config_get
     (config (snd (Project_init demo_fs demo_os demo_mk 0 (Some ''demo.cfg'') True
        (initial_project []))))
     ''PROJECT'' ''AUTHORIZED_EMAILS'' = Inr (VStr ''a@x.com,b@x.com'')"
  by (simp add: Project_init_def parse_config_def demo_fs_def dict_items_def dict_of_def
      convert_def lower_def lower_char_def is_digit_def initial_project_def
      Project_config_def config_get_def or_else_def domain_of_name_def demo_mk_def
      Let_def AList.clearjunk.simps AList.delete_eq map_add_def)

theorem directory_lookup_witness:
  "config_get
     (config (snd (Project_init demo_fs demo_os demo_mk 0 (Some ''demo.cfg'') True
        (initial_project []))))
     ''PROJECT'' ''AUTHORIZED_EMAILS'' = Inr (VStr ''a@x.com,b@x.com'')
   \<and> strip ''a@x.com'' = ''a@x.com'' \<and> strip ''b@x.com'' = ''b@x.com''
   \<and> (\<exists>all.
         populate_from_config
           (config (snd (Project_init demo_fs demo_os demo_mk 0 (Some ''demo.cfg'') True
              (initial_project [])))) = Inr all
         \<and> dom all = {''a@x.com'', ''b@x.com''}
         \<and> map_option get_id (get_from_id all (KStr ''a@x.com'')) = Some ''a@x.com''
         \<and> map_option get_id (get_from_id all (KStr ''A@x.com'')) = None)"
proof -
  let ?cfg = "config (snd (Project_init demo_fs demo_os demo_mk 0 (Some ''demo.cfg'') True
    (initial_project [])))"
  have h1: "config_get ?cfg ''PROJECT'' ''AUTHORIZED_EMAILS'' =
      Inr (VStr (join '','' [''a@x.com'', ''b@x.com'']))"
    by (simp add: demo_config_emails)
  have clean: "strip ''a@x.com'' = ''a@x.com''" "strip ''b@x.com'' = ''b@x.com''"
    by (simp_all add: strip_def is_space_def)
  then have h2: "\<forall>e\<in>set [''a@x.com'', ''b@x.com''].
      e \<noteq> [] \<and> CHR '','' \<notin> set e \<and> strip e = e"
    by simp
  from directory_lookup [OF h1 h2] obtain all where
    populated: "populate_from_config ?cfg = Inr all" and
    keys: "dom all = set [''a@x.com'', ''b@x.com'']" and
    lookup: "\<And>email. map_option get_id (get_from_id all (KStr email)) =
       (if email \<in> set [''a@x.com'', ''b@x.com''] then Some email else None)"
    by blast
  have keys': "dom all = {''a@x.com'', ''b@x.com''}"
    unfolding keys by simp
  have found: "map_option get_id (get_from_id all (KStr ''a@x.com'')) = Some ''a@x.com''"
    unfolding lookup [of "''a@x.com''"] by simp
  have absent: "map_option get_id (get_from_id all (KStr ''A@x.com'')) = None"
    unfolding lookup [of "''A@x.com''"] by simp
  from populated keys' found absent
  have "\<exists>all. populate_from_config ?cfg = Inr all
      \<and> dom all = {''a@x.com'', ''b@x.com''}
      \<and> map_option get_id (get_from_id all (KStr ''a@x.com'')) = Some ''a@x.com''
      \<and> map_option get_id (get_from_id all (KStr ''A@x.com'')) = None"
    by (intro exI [of _ all] conjI)
  with demo_config_emails clean show ?thesis
    by (intro conjI)
qed

section \<open>Properties of the project\<close>

subsection \<open>Reading the configuration file\<close>

lemma parse_config_unreadable:
  "fs p = Unreadable \<Longrightarrow>
   parse_config fs p =
     Inl (ProjectImportError (''Unable to parse configuration file at '' @ p @ ''.''))"
  by (simp add: parse_config_def)

lemma parse_config_result:
  assumes "parse_config fs p = Inr conf"
  shows "distinct (map fst conf)"
    and "\<exists>project name. map_of conf ''PROJECT'' = Some project
           \<and> project ''NAME'' = Some name \<and> truthy name"
proof -
  from assms obtain secs where secs: "fs p = Sections secs"
    by (cases "fs p") (simp_all add: parse_config_def)
  let ?conf = "dict_items
    (map (\<lambda>(s, items). (s, dict_of (map (\<lambda>(k, v). (k, convert v)) items))) secs)"
  from assms secs have conf: "conf = ?conf"
    by (simp add: parse_config_def Let_def split: option.splits if_splits)
  show "distinct (map fst conf)"
    unfolding conf dict_items_def by (rule AList.distinct_clearjunk)
  from assms secs show "\<exists>project name. map_of conf ''PROJECT'' = Some project
      \<and> project ''NAME'' = Some name \<and> truthy name"
    unfolding conf
    by (simp add: parse_config_def Let_def split: option.splits if_splits)
qed

lemma Project_init_parse_error:
  assumes "\<not> registered st" and "parse_config fs p = Inl e"
  shows "Project_init fs os mk tid (Some p) do_make st =
           (Inl e, st\<lparr>instances := Suc (instances st),
                       current_project := (current_project st)(tid \<mapsto> instances st)\<rparr>)"
  using assms by (simp add: Project_init_def Let_def)

text \<open>
  For a path that cannot be opened, and for a file whose \<^verbatim>\<open>NAME\<close> is there and
  empty, the initialization raises the project import error, registers nothing
  and leaves the configuration as it was.
\<close>

lemma Project_init_unreadable_or_empty:
  assumes "\<not> registered st"
    and "fs p = Unreadable
         \<or> (\<exists>secs items. fs p = Sections secs \<and> map_of (rev secs) ''PROJECT'' = Some items
               \<and> map_of (rev items) ''NAME'' = Some [])"
  shows "\<exists>msg. fst (Project_init fs os mk tid (Some p) do_make st) = Inl (ProjectImportError msg)"
    and "\<not> registered (snd (Project_init fs os mk tid (Some p) do_make st))"
    and "config (snd (Project_init fs os mk tid (Some p) do_make st)) = config st"
proof -
  have "\<exists>msg. parse_config fs p = Inl (ProjectImportError msg)"
    using assms(2)
  proof
    assume "fs p = Unreadable"
    then show ?thesis by (simp add: parse_config_unreadable)
  next
    assume "\<exists>secs items. fs p = Sections secs \<and> map_of (rev secs) ''PROJECT'' = Some items
               \<and> map_of (rev items) ''NAME'' = Some []"
    then obtain secs items where secs: "fs p = Sections secs"
      and project: "map_of (rev secs) ''PROJECT'' = Some items"
      and name: "map_of (rev items) ''NAME'' = Some []"
      by blast
    let ?f = "\<lambda>items. dict_of (map (\<lambda>(k, v). (k, convert v)) items)"
    have "map_of (rev (map (\<lambda>(s, items). (s, ?f items)) secs)) ''PROJECT'' = Some (?f items)"
      using project by (simp add: rev_map map_of_map)
    moreover have "?f items ''NAME'' = Some (convert [])"
      using name by (simp add: dict_of_def rev_map map_of_map)
    moreover have "\<not> truthy (convert [])"
      by (simp add: convert_def lower_def)
    ultimately show ?thesis
      using secs
      by (simp add: parse_config_def dict_items_def AList.map_of_clearjunk Let_def)
  qed
  then obtain msg where "parse_config fs p = Inl (ProjectImportError msg)" ..
  note eq = Project_init_parse_error [OF assms(1) this]
  show "\<exists>msg. fst (Project_init fs os mk tid (Some p) do_make st) = Inl (ProjectImportError msg)"
    by (simp add: eq)
  show "\<not> registered (snd (Project_init fs os mk tid (Some p) do_make st))"
    using assms(1) by (simp add: eq)
  show "config (snd (Project_init fs os mk tid (Some p) do_make st)) = config st"
    by (simp add: eq)
qed

text \<open>
  Claim C5 fails for a file that has no \<^verbatim>\<open>NAME\<close> at all. The file
  \<^verbatim>\<open>noname.cfg\<close> has a \<^verbatim>\<open>PROJECT\<close> section with \<^verbatim>\<open>DOMAIN\<close> only: reading
  it raises a \<^verbatim>\<open>KeyError\<close> on \<^verbatim>\<open>NAME\<close>, which is not the project import
  error, and so does the initialization; nothing is registered.
\<close>

theorem Project_init_name_missing:
  "parse_config demo_fs ''noname.cfg'' = Inl (KeyError ''NAME'')
   \<and> fst (Project_init demo_fs demo_os demo_mk 0 (Some ''noname.cfg'') True
            (initial_project [])) = Inl (KeyError ''NAME'')
   \<and> registered (snd (Project_init demo_fs demo_os demo_mk 0 (Some ''noname.cfg'') True
            (initial_project []))) = False"
proof -
  have parse: "parse_config demo_fs ''noname.cfg'' = Inl (KeyError ''NAME'')"
    by (simp add: parse_config_def demo_fs_def dict_items_def dict_of_def
        AList.clearjunk.simps)
  have "\<not> registered (initial_project [] :: string project)"
    by (simp add: initial_project_def)
  from Project_init_parse_error [OF this parse, of demo_os demo_mk 0 True] parse
  show ?thesis
    by (simp add: initial_project_def)
qed

subsection \<open>Merging over the defaults\<close>

lemma merge_config_lookup:
  "distinct (map fst conf) \<Longrightarrow>
   merge_config conf cfg sec =
     (case map_of conf sec of
        None \<Rightarrow> cfg sec
      | Some f \<Rightarrow> Some (case cfg sec of None \<Rightarrow> f | Some known \<Rightarrow> known ++ f))"
proof (induction conf arbitrary: cfg)
  case Nil
  show ?case by simp
next
  case (Cons item conf)
  obtain key f where item: "item = (key, f)"
    by (cases item)
  from Cons.prems item have fresh: "map_of conf key = None" and rest: "distinct (map fst conf)"
    by (auto simp: map_of_eq_None_iff)
  show ?case
  proof (cases "key = sec")
    case True
    with fresh show ?thesis
      by (simp add: item Cons.IH [OF rest] split: option.split)
  next
    case False
    then show ?thesis
      by (simp add: item Cons.IH [OF rest] split: option.split)
  qed
qed

lemma Project_init_config:
  assumes "\<not> registered st" and "parse_config fs p = Inr conf"
  shows "config (snd (Project_init fs os mk tid (Some p) do_make st)) =
           merge_config conf (config st)"
  using assms
  by (simp add: Project_init_def Let_def split: sum.split prod.split option.split)

text \<open>
  Claim C7. Let the file at the path parse to \<open>conf\<close>, in a process where no
  project is registered yet and the configuration is \<open>config st\<close> (the
  compiled-in defaults, at start). After the initialization, whether it then
  completes or raises in a later step, a section of the file is in the
  configuration: with every key of the file at the file's value, with every other
  key at the value the configuration had for it, and equal to the section of the
  file when the configuration had no such section. A section that the file does
  not have is as it was.
\<close>

theorem Project_init_merges:
  assumes "\<not> registered st" and "parse_config fs p = Inr conf"
  shows "\<forall>sec. case map_of conf sec of
           None \<Rightarrow>
             config (snd (Project_init fs os mk tid (Some p) do_make st)) sec = config st sec
         | Some f \<Rightarrow>
             (\<exists>merged.
                config (snd (Project_init fs os mk tid (Some p) do_make st)) sec = Some merged
                \<and> (\<forall>key value. f key = Some value \<longrightarrow> merged key = Some value)
                \<and> (\<forall>key known. f key = None \<longrightarrow> config st sec = Some known \<longrightarrow>
                      merged key = known key)
                \<and> (config st sec = None \<longrightarrow> merged = f))"
proof
  fix sec
  have distinct: "distinct (map fst conf)"
    by (rule parse_config_result(1) [OF assms(2)])
  note eq = Project_init_config [OF assms, of os mk tid do_make]
  show "case map_of conf sec of
           None \<Rightarrow>
             config (snd (Project_init fs os mk tid (Some p) do_make st)) sec = config st sec
         | Some f \<Rightarrow>
             (\<exists>merged.
                config (snd (Project_init fs os mk tid (Some p) do_make st)) sec = Some merged
                \<and> (\<forall>key value. f key = Some value \<longrightarrow> merged key = Some value)
                \<and> (\<forall>key known. f key = None \<longrightarrow> config st sec = Some known \<longrightarrow>
                      merged key = known key)
                \<and> (config st sec = None \<longrightarrow> merged = f))"
    unfolding eq merge_config_lookup [OF distinct]
    by (auto simp: map_add_def split: option.split)
qed

subsection \<open>One registration\<close>

lemma Project_init_registered:
  assumes "registered st"
  shows "Project_init fs os mk tid config_path do_make st =
           (Inr (instances st),
            st\<lparr>instances := Suc (instances st),
               current_project := (current_project st)(tid \<mapsto> instances st)\<rparr>)"
  using assms by (simp add: Project_init_def Let_def)

lemma constructions_registered:
  "registered st \<Longrightarrow> shared_state (constructions fs os mk cs st) = shared_state st"
proof (induction cs arbitrary: st)
  case Nil
  show ?case by simp
next
  case (Cons c cs)
  obtain tid config_path do_make where c: "c = (tid, config_path, do_make)"
    by (cases c)
  let ?st = "st\<lparr>instances := Suc (instances st),
                 current_project := (current_project st)(tid \<mapsto> instances st)\<rparr>"
  have "registered ?st"
    using Cons.prems by simp
  from Cons.IH [OF this] show ?case
    by (simp add: c Project_init_registered [OF Cons.prems] shared_state_def)
qed

lemma Project_init_registers:
  assumes "fst (Project_init fs os mk tid config_path do_make st) = Inr self"
  shows "registered (snd (Project_init fs os mk tid config_path do_make st))"
proof (cases "registered st")
  case True
  then show ?thesis
    by (simp add: Project_init_def Let_def)
next
  case False
  with assms show ?thesis
    by (auto simp: Project_init_def Let_def
        split: sum.splits prod.splits option.splits if_splits)
qed

text \<open>
  Claim C8. Once a project is registered, a construction, by any thread, with a
  path or without one, does not run the registration step: it returns the new
  instance, and the state it leaves differs from the one before only in the
  count of instances and in the thread's current project. So after any run of
  later constructions every instance reads the same attributes as the first one
  did (the same \<open>registered\<close>, configuration, directories, domain and
  components), and the lookup of the current project returns an instance over
  that same state. The parameter \<open>mk\<close>, the creation of the components, has no
  part in the result: it is not run again.
\<close>

theorem Project_init_once:
  assumes "registered st"
  shows "Project_init fs os mk tid config_path do_make st =
           (Inr (instances st),
            st\<lparr>instances := Suc (instances st),
               current_project := (current_project st)(tid \<mapsto> instances st)\<rparr>)
       \<and> shared_state (constructions fs os mk cs st) = shared_state st
       \<and> (\<exists>inst. fst (get_current_project fs os mk tid st) = Inr inst)
       \<and> shared_state (snd (get_current_project fs os mk tid st)) = shared_state st"
proof -
  have "\<exists>inst. fst (get_current_project fs os mk tid st) = Inr inst"
    by (simp add: get_current_project_def Project_init_registered [OF assms]
        split: option.split)
  moreover have "shared_state (snd (get_current_project fs os mk tid st)) = shared_state st"
    by (simp add: get_current_project_def Project_init_registered [OF assms]
        shared_state_def split: option.split)
  ultimately show ?thesis
    using Project_init_registered [OF assms] constructions_registered [OF assms]
    by blast
qed

subsection \<open>The sample files\<close>

lemmas demo_eval =
  Project_init_def parse_config_def demo_fs_def dict_items_def dict_of_def convert_def
  lower_def lower_char_def is_digit_def int_of_digits_def initial_project_def
  Project_config_def config_get_def or_else_def domain_of_name_def demo_mk_def demo_os_def
  Let_def AList.clearjunk.simps AList.delete_eq map_add_def

lemma demo_project_registered: "registered demo_project" "instances demo_project = 1"
  by (simp_all add: demo_project_def demo_eval)

theorem Project_init_merges_witness:
  "\<not> registered (initial_project [] :: string project)
   \<and> (\<exists>conf. parse_config demo_fs ''mail.cfg'' = Inr conf
         \<and> map_of conf ''ENGINE'' = None)
   \<and> (\<exists>merged.
         config (snd (Project_init demo_fs demo_os demo_mk 0 (Some ''mail.cfg'') True
           (initial_project []))) ''PROJECT'' = Some merged
         \<and> merged ''NAME'' = Some (VStr ''Mailer'')
         \<and> merged ''FLASK_ROOT_FOLDER'' = Some (VStr ''app''))
   \<and> (\<exists>merged.
         config (snd (Project_init demo_fs demo_os demo_mk 0 (Some ''mail.cfg'') True
           (initial_project []))) ''MAIL'' = Some merged
         \<and> merged ''PORT'' = Some (VInt 25)
         \<and> merged ''NAME'' = None)
   \<and> config (snd (Project_init demo_fs demo_os demo_mk 0 (Some ''mail.cfg'') True
        (initial_project []))) ''ENGINE'' = Project_config ''ENGINE''"
proof -
  let ?st = "initial_project [] :: string project"
  let ?project = "dict_of (map (\<lambda>(k, v). (k, convert v)) [(''NAME'', ''Mailer'')])"
  let ?mail = "dict_of (map (\<lambda>(k, v). (k, convert v))
    [(''HOST'', ''localhost''), (''PORT'', ''25'')])"
  let ?conf = "[(''MAIL'', ?mail), (''PROJECT'', ?project)]"
  let ?cfg = "config (snd (Project_init demo_fs demo_os demo_mk 0 (Some ''mail.cfg'') True ?st))"
  have h1: "\<not> registered ?st"
    by (simp add: initial_project_def)
  have h2: "parse_config demo_fs ''mail.cfg'' = Inr ?conf"
    by (simp add: parse_config_def demo_fs_def dict_items_def dict_of_def convert_def
        lower_def lower_char_def is_digit_def AList.clearjunk.simps AList.delete_eq)
  note merged = Project_init_merges [OF h1 h2, of demo_os demo_mk 0 True, rule_format]
  have start: "config ?st = Project_config"
    by (simp add: initial_project_def)
  have project: "\<exists>merged. ?cfg ''PROJECT'' = Some merged
      \<and> merged ''NAME'' = Some (VStr ''Mailer'')
      \<and> merged ''FLASK_ROOT_FOLDER'' = Some (VStr ''app'')"
  proof -
    from merged [of "''PROJECT''"] obtain m where
      m: "?cfg ''PROJECT'' = Some m"
      and from_file: "\<And>key value. ?project key = Some value \<Longrightarrow> m key = Some value"
      and kept: "\<And>key known. ?project key = None \<Longrightarrow>
        config ?st ''PROJECT'' = Some known \<Longrightarrow> m key = known key"
      by auto
    have "m ''NAME'' = Some (VStr ''Mailer'')"
      by (rule from_file) (simp add: dict_of_def convert_def lower_def lower_char_def is_digit_def)
    moreover have "m ''FLASK_ROOT_FOLDER'' = Some (VStr ''app'')"
    proof -
      have "?project ''FLASK_ROOT_FOLDER'' = None"
        by (simp add: dict_of_def)
      moreover have "\<exists>known. config ?st ''PROJECT'' = Some known
          \<and> known ''FLASK_ROOT_FOLDER'' = Some (VStr ''app'')"
        by (simp add: start Project_config_def)
      ultimately show ?thesis
        using kept by fastforce
    qed
    ultimately show ?thesis
      using m by blast
  qed
  have mail: "\<exists>merged. ?cfg ''MAIL'' = Some merged
      \<and> merged ''PORT'' = Some (VInt 25) \<and> merged ''NAME'' = None"
  proof -
    from merged [of "''MAIL''"] obtain m where
      m: "?cfg ''MAIL'' = Some m"
      and whole: "config ?st ''MAIL'' = None \<Longrightarrow> m = ?mail"
      by auto
    have "config ?st ''MAIL'' = None"
      by (simp add: start Project_config_def)
    from whole [OF this] have "m ''PORT'' = Some (VInt 25)" "m ''NAME'' = None"
      by (simp_all add: dict_of_def convert_def lower_def lower_char_def is_digit_def
          int_of_digits_def)
    with m show ?thesis
      by blast
  qed
  have engine: "?cfg ''ENGINE'' = Project_config ''ENGINE''"
    using merged [of "''ENGINE''"] by (simp add: start)
  have "\<exists>conf. parse_config demo_fs ''mail.cfg'' = Inr conf \<and> map_of conf ''ENGINE'' = None"
    using h2 by simp
  with h1 project mail engine show ?thesis
    by (intro conjI)
qed

theorem Project_init_once_witness:
  "registered demo_project
   \<and> fst (Project_init demo_fs demo_os demo_mk 1 None True demo_project) = Inr 1
   \<and> shared_state (snd (Project_init demo_fs demo_os demo_mk 1 None True demo_project)) =
       shared_state demo_project
   \<and> shared_state (constructions demo_fs demo_os demo_mk
        [(1, None, True), (2, Some ''mail.cfg'', True), (1, None, False)] demo_project) =
       shared_state demo_project
   \<and> fst (get_current_project demo_fs demo_os demo_mk 0 demo_project) = Inr 0"
proof -
  note once = Project_init_once [OF demo_project_registered(1),
    of demo_fs demo_os demo_mk 1 None True
       "[(1, None, True), (2, Some ''mail.cfg'', True), (1, None, False)]"]
  have "fst (Project_init demo_fs demo_os demo_mk 1 None True demo_project) = Inr 1"
    using once by (simp add: demo_project_registered(2))
  moreover have "shared_state (snd (Project_init demo_fs demo_os demo_mk 1 None True
      demo_project)) = shared_state demo_project"
    using once by (simp add: shared_state_def)
  moreover have "shared_state (constructions demo_fs demo_os demo_mk
      [(1, None, True), (2, Some ''mail.cfg'', True), (1, None, False)] demo_project) =
      shared_state demo_project"
    using once by blast
  moreover have "fst (get_current_project demo_fs demo_os demo_mk 0 demo_project) = Inr 0"
    by (simp add: get_current_project_def demo_project_def demo_eval)
  ultimately show ?thesis
    using demo_project_registered(1) by (intro conjI)
qed

end
